theory Spec2Isabelle
  imports Main "HOL-Library.AList" "HOL-Library.Char_ord" "HOL-Library.List_Lexorder"
begin

section \<open>Shared data: JSON values, Python exceptions\<close>

text \<open>
  Values that \<open>json.load\<close> can produce. A Python \<open>dict\<close> is an association list
  in insertion order with unique keys; \<open>AList.update\<close> overwrites a key in place and
  appends a new one at the end, as assignment to a \<open>dict\<close> entry does.
\<close>

datatype json = JNull | JBool bool | JNum int | JStr string
  | JArr "json list" | JObj "(string \<times> json) list"

type_synonym pydict = "(string \<times> json) list"

text \<open>
  Exceptions by the classes the handlers of the source distinguish. \<open>BaseException\<close>
  stands for the exceptions that are no subclass of \<open>Exception\<close> (KeyboardInterrupt,
  SystemExit): no \<open>except Exception\<close> clause catches them. The string is \<open>str(e)\<close>.
\<close>

datatype exc = Timeout string | HTTPError string | RequestException string
  | JSONDecodeError string | KeyError string | IOError string | TypeError string
  | OtherException string | BaseException string

fun str_exc :: "exc \<Rightarrow> string" where
  "str_exc (Timeout m) = m"
| "str_exc (HTTPError m) = m"
| "str_exc (RequestException m) = m"
| "str_exc (JSONDecodeError m) = m"
| "str_exc (KeyError m) = m"
| "str_exc (IOError m) = m"
| "str_exc (TypeError m) = m"
| "str_exc (OtherException m) = m"
| "str_exc (BaseException m) = m"

fun is_Exception :: "exc \<Rightarrow> bool" where
  "is_Exception (BaseException m) = False"
| "is_Exception e = True"

section \<open>config_manager.py\<close>

definition DEFAULT_CONFIG :: pydict where
  "DEFAULT_CONFIG =
     [(''api_endpoint'', JStr ''http://localhost:11434''),
      (''active_system_prompt'', JStr ''default.txt''),
      (''api_type'', JStr ''Ollama''),
      (''api_key'', JStr '''')]"

text \<open>
  The state of \<open>config.json\<close> as \<open>load_config\<close> meets it:
  \<^item> \<open>Missing\<close>: the file does not exist;
  \<^item> \<open>Unreadable\<close>: it exists and \<open>open\<close> or the read raises IOError;
  \<^item> \<open>Undecodable\<close>: its bytes are no text in the encoding of \<open>open\<close>, and the read
    inside \<open>json.load\<close> raises UnicodeDecodeError, which is neither an IOError nor a
    JSONDecodeError;
  \<^item> \<open>Corrupt\<close>: it is read and \<open>json.load\<close> raises JSONDecodeError;
  \<^item> \<open>TooDeep\<close>: it is read and the decoder raises RecursionError on its nesting;
  \<^item> \<open>JsonObject\<close>: it holds a JSON object (the pairs in file order, a later duplicate
    key winning as in \<open>json.load\<close>);
  \<^item> \<open>JsonOther\<close>: it holds a JSON value that is no object and that \<open>dict.update\<close>
    rejects (a number, a boolean, null, a non-empty string, an array with an element that
    is no pair).
  The flag \<open>writable\<close> says whether \<open>open(CONFIG_FILE, 'w')\<close> succeeds. The backup copy
  of a corrupt file is not part of the state.
\<close>

datatype config_content = Missing | Unreadable | Undecodable | Corrupt | TooDeep
  | JsonObject "(string \<times> json) list" | JsonOther

record config_file =
  content :: config_content
  writable :: bool

definition save_config :: "pydict \<Rightarrow> config_file \<Rightarrow> config_file" where
  "save_config config_data f =
     (if writable f then f\<lparr>content := JsonObject config_data\<rparr> else f)"

text \<open>\<open>d.update(other)\<close> for a parsed object: the pairs are assigned in order.\<close>

definition dict_update :: "pydict \<Rightarrow> (string \<times> json) list \<Rightarrow> pydict" where
  "dict_update d kvs = fold (\<lambda>(k, v) acc. AList.update k v acc) kvs d"

definition dict_has :: "pydict \<Rightarrow> string \<Rightarrow> bool" where
  "dict_has d k = (k \<in> set (map fst d))"

text \<open>
  The loop over \<open>DEFAULT_CONFIG.items()\<close>: a default key that is missing from
  \<open>final_config\<close> is added and \<open>needs_save\<close> is raised.
\<close>

fun add_missing :: "(string \<times> json) list \<Rightarrow> pydict \<times> bool \<Rightarrow> pydict \<times> bool" where
  "add_missing [] acc = acc"
| "add_missing ((key, val) # rest) (final_config, needs_save) =
     (if \<not> dict_has final_config key
      then add_missing rest (AList.update key val final_config, True)
      else add_missing rest (final_config, needs_save))"

text \<open>
  \<open>load_config\<close> returns the dictionary, or the exception that leaves it: its handlers
  catch JSONDecodeError around \<open>json.load\<close> and IOError around the whole block, nothing
  else.
\<close>

definition load_config :: "config_file \<Rightarrow> (exc + pydict) \<times> config_file" where
  "load_config f =
     (case content f of
        Missing \<Rightarrow> (Inr DEFAULT_CONFIG, save_config DEFAULT_CONFIG f)
      | Unreadable \<Rightarrow> (Inr DEFAULT_CONFIG, f)
      | Undecodable \<Rightarrow> (Inl (OtherException ''UnicodeDecodeError''), f)
      | Corrupt \<Rightarrow> (Inr DEFAULT_CONFIG, save_config DEFAULT_CONFIG f)
      | TooDeep \<Rightarrow> (Inl (OtherException ''RecursionError''), f)
      | JsonOther \<Rightarrow> (Inl (TypeError ''dict.update''), f)
      | JsonObject config \<Rightarrow>
          (let (final_config, needs_save) =
                 add_missing DEFAULT_CONFIG (dict_update DEFAULT_CONFIG config, False)
           in (Inr final_config,
               if needs_save then save_config final_config f else f)))"

text \<open>The keys the file supplies: none unless it holds a JSON object.\<close>

fun file_keys :: "config_content \<Rightarrow> string set" where
  "file_keys (JsonObject kvs) = fst ` set kvs"
| "file_keys c = {}"

text \<open>The states for which \<open>load_config\<close> has a branch or a handler.\<close>

fun handled :: "config_content \<Rightarrow> bool" where
  "handled Undecodable = False"
| "handled TooDeep = False"
| "handled JsonOther = False"
| "handled c = True"

section \<open>Python string helpers\<close>

text \<open>
  \<open>s.endswith(suf)\<close>, \<open>s.strip(c)\<close> for one character, \<open>sub in s\<close>,
  \<open>s.split(sep)[0]\<close> (the text before the first occurrence of \<open>sep\<close>, all of \<open>s\<close>
  when there is none) and \<open>s.strip()\<close>. Whitespace is what \<open>str.isspace\<close> accepts
  among the code points below 256.
\<close>

definition endswith :: "string \<Rightarrow> string \<Rightarrow> bool" where
  "endswith s suf = (take (length suf) (rev s) = rev suf)"

definition strip_char :: "char \<Rightarrow> string \<Rightarrow> string" where
  "strip_char c s = rev (dropWhile (\<lambda>x. x = c) (rev (dropWhile (\<lambda>x. x = c) s)))"

fun startswith :: "string \<Rightarrow> string \<Rightarrow> bool" where
  "startswith s [] = True"
| "startswith [] (p # ps) = False"
| "startswith (x # xs) (p # ps) = (x = p \<and> startswith xs ps)"

fun contains :: "string \<Rightarrow> string \<Rightarrow> bool" where
  "contains [] sub = (sub = [])"
| "contains (x # xs) sub = (startswith (x # xs) sub \<or> contains xs sub)"

fun split_first :: "string \<Rightarrow> string \<Rightarrow> string" where
  "split_first [] sep = []"
| "split_first (x # xs) sep =
     (if startswith (x # xs) sep then [] else x # split_first xs sep)"

definition isspace :: "char \<Rightarrow> bool" where
  "isspace c = (of_char c \<in> {9, 10, 11, 12, 13, 28, 29, 30, 31, 32, 133, 160 :: nat})"

definition strip :: "string \<Rightarrow> string" where
  "strip s = rev (dropWhile isspace (rev (dropWhile isspace s)))"

section \<open>api_client.py\<close>

text \<open>
  The network is a collaborator. \<open>http_get url\<close> stands for the request, the status
  check and the JSON decoding inside the \<open>try\<close> block of \<open>fetch_installed_models\<close>.
  It raises (also when the reply has a shape on which the extraction raises), or yields
  what the reply holds under the key \<open>models\<close> (\<open>data\<close> for the other API type):
  \<open>None\<close> when the key is missing, else one entry per model, the entry's \<open>name\<close>
  (\<open>id\<close>) or \<open>None\<close> when the entry has none. \<open>extract_names\<close> is the source's
  \<open>.get(key, [])\<close>, comprehension and \<open>sorted\<close>. The result of
  \<open>fetch_installed_models\<close> pairs the returned list (or the exception that leaves the
  function) with the calls of \<open>show_api_error\<close> as (title, message).
\<close>

type_synonym models_reply = "string option list option"

definition extract_names :: "models_reply \<Rightarrow> string list" where
  "extract_names reply =
     sort (List.map_filter (\<lambda>entry. entry) (case reply of None \<Rightarrow> [] | Some entries \<Rightarrow> entries))"

definition connect_error_msg :: "string \<Rightarrow> string \<Rightarrow> string" where
  "connect_error_msg url m =
     ''Could not connect or fetch models from '' @ url @ ''.'' @ [CHR 0x0A] @ ''Error: '' @ m
     @ [CHR 0x0A, CHR 0x0A] @ ''Check API server and endpoint/type configuration.''"

fun fetch_failed :: "string \<Rightarrow> exc \<Rightarrow> (exc + string list) \<times> (string \<times> string) list" where
  "fetch_failed url (Timeout m) =
     (Inr [], [(''API Connection Error'', ''Request timed out connecting to '' @ url @ ''.'')])"
| "fetch_failed url (HTTPError m) =
     (Inr [], [(''API Connection Error'', connect_error_msg url m)])"
| "fetch_failed url (RequestException m) =
     (Inr [], [(''API Connection Error'', connect_error_msg url m)])"
| "fetch_failed url (JSONDecodeError m) =
     (Inr [], [(''API Response Error'', ''Invalid JSON response received from '' @ url
                  @ ''.'' @ [CHR 0x0A] @ ''Error: '' @ m)])"
| "fetch_failed url (BaseException m) = (Inl (BaseException m), [])"
| "fetch_failed url e =
     (Inr [], [(''API Error'', ''An unexpected error occurred while fetching models: ''
                  @ str_exc e)])"

definition fetch_try ::
  "string \<Rightarrow> (string \<Rightarrow> exc + models_reply) \<Rightarrow> (exc + string list) \<times> (string \<times> string) list" where
  "fetch_try url http_get =
     (case http_get url of
        Inr reply \<Rightarrow> (Inr (extract_names reply), [])
      | Inl e \<Rightarrow> fetch_failed url e)"

definition fetch_installed_models ::
  "string \<Rightarrow> string \<Rightarrow> (string \<Rightarrow> exc + models_reply)
     \<Rightarrow> (exc + string list) \<times> (string \<times> string) list" where
  "fetch_installed_models api_endpoint api_type http_get =
     (if api_endpoint = [] then (Inr [], [(''API Error'', ''API endpoint is not configured.'')])
      else if api_type = ''Ollama'' then fetch_try (api_endpoint @ ''/api/tags'') http_get
      else if api_type = ''OpenAI'' then
        (let url = api_endpoint @ ''/v1/models'';
             url = (if \<not> endswith url ''/v1/models''
                    then strip_char (CHR ''/'') api_endpoint @ ''/v1/models'' else url)
         in fetch_try url http_get)
      else (Inr [], [(''API Error'', ''Unsupported API type: '' @ api_type)]))"

text \<open>
  \<open>generate_text\<close> returns \<open>{"response": text}\<close> or \<open>{"error": message}\<close>.
  Its collaborators: \<open>format\<close> is \<open>prompt_template.format(example_text=..., user_prompt=...)\<close>
  (template, example text, user input), which may raise; \<open>post_generate\<close> is the Ollama
  request up to the decoded reply (url, model, prompt), given as what the reply holds
  under \<open>response\<close>, \<open>None\<close> when the key is missing; \<open>post_chat\<close> is the chat
  request up to the decoded reply (url, model, messages as (role, content)), given as one
  entry per element of \<open>choices\<close> (none when the key is missing), the entry's message
  \<open>content\<close> or \<open>None\<close> when it has none. The source reads a missing \<open>response\<close>
  or \<open>content\<close> with \<open>.get(key, "")\<close>.
\<close>

datatype gen_result = Response string | Error string

record generate_args =
  g_api_endpoint :: string
  g_api_type :: string
  g_selected_model :: string
  g_system_prompt_content :: string
  g_user_input :: string
  g_example_text :: string
  g_format :: "string \<Rightarrow> string \<Rightarrow> string \<Rightarrow> exc + string"
  g_post_generate :: "string \<Rightarrow> string \<Rightarrow> string \<Rightarrow> exc + string option"
  g_post_chat :: "string \<Rightarrow> string \<Rightarrow> (string \<times> string) list \<Rightarrow> exc + string option list"

fun generate_failed :: "string \<Rightarrow> exc \<Rightarrow> exc + gen_result" where
  "generate_failed url (Timeout m) =
     Inr (Error (''Request timed out trying to generate text via '' @ url @ ''.''))"
| "generate_failed url (HTTPError m) = Inr (Error (''HTTP error occurred: '' @ m))"
| "generate_failed url (RequestException m) =
     Inr (Error (''API request failed connecting to '' @ url @ ''.'' @ [CHR 0x0A]
                 @ ''Error: '' @ m))"
| "generate_failed url (JSONDecodeError m) =
     Inr (Error (''Invalid JSON response received from '' @ url @ ''.'' @ [CHR 0x0A]
                 @ ''Error: '' @ m))"
| "generate_failed url (BaseException m) = Inl (BaseException m)"
| "generate_failed url e = Inr (Error (''An unexpected error occurred: '' @ str_exc e))"

definition chat_messages :: "string \<Rightarrow> string \<Rightarrow> string \<Rightarrow> (string \<times> string) list" where
  "chat_messages system_prompt_content example_text user_input =
     (let cleaned = strip (split_first system_prompt_content ''Example Text Prompts:'');
          cleaned = strip (split_first cleaned ''User Input:'')
      in (if system_prompt_content \<noteq> [] \<and> cleaned \<noteq> [] then [(''system'', cleaned)] else [])
         @ [(''user'',
             ''Analyze the following examples and generate a new prompt based on them, focusing on the user's goal.''
             @ [CHR 0x0A, CHR 0x0A] @ ''**Example Text Prompts:**'' @ [CHR 0x0A] @ example_text
             @ [CHR 0x0A, CHR 0x0A] @ ''**User Input/Goal:**'' @ [CHR 0x0A] @ user_input)])"

definition get_or_empty :: "string option \<Rightarrow> string" where
  "get_or_empty field = (case field of None \<Rightarrow> [] | Some v \<Rightarrow> v)"

definition generate_text :: "generate_args \<Rightarrow> exc + gen_result" where
  "generate_text a =
     (if g_api_endpoint a = [] then Inr (Error ''API endpoint is not configured.'')
      else if g_selected_model a = [] then Inr (Error ''No AI model selected.'')
      else if g_api_type a = ''Ollama'' then
        (let url = g_api_endpoint a @ ''/api/generate'' in
         case g_format a (g_system_prompt_content a) (g_example_text a) (g_user_input a) of
           Inl (KeyError m) \<Rightarrow>
             Inr (Error (''System prompt for Ollama is missing placeholder: '' @ m))
         | Inl (BaseException m) \<Rightarrow> Inl (BaseException m)
         | Inl e \<Rightarrow> Inr (Error (''Error formatting Ollama prompt: '' @ str_exc e))
         | Inr final_prompt \<Rightarrow>
             (case g_post_generate a url (g_selected_model a) final_prompt of
                Inl e \<Rightarrow> generate_failed url e
              | Inr reply \<Rightarrow> Inr (Response (get_or_empty reply))))
      else if g_api_type a = ''OpenAI'' then
        (let url = g_api_endpoint a @ ''/v1/chat/completions'';
             url = (if \<not> endswith url ''/v1/chat/completions''
                    then strip_char (CHR ''/'') (g_api_endpoint a) @ ''/v1/chat/completions''
                    else url);
             messages = chat_messages (g_system_prompt_content a) (g_example_text a)
                          (g_user_input a)
         in case g_post_chat a url (g_selected_model a) messages of
              Inl e \<Rightarrow> generate_failed url e
            | Inr [] \<Rightarrow>
                Inr (Error ''API response did not contain expected 'choices' data.'')
            | Inr (choice # others) \<Rightarrow> Inr (Response (strip (get_or_empty choice))))
      else Inr (Error (''Unsupported API type for generation: '' @ g_api_type a)))"

section \<open>main_window.py: the worker\<close>

text \<open>
  \<open>ApiWorker.run\<close>. The worker holds a callable: \<open>fetch_installed_models\<close> or
  \<open>generate_text\<close> with their arguments, or any other function, given by what it does
  when called. The result of \<open>run\<close> is the sequence of signals emitted, in order.
  An exception that is no \<open>Exception\<close> passes the \<open>except\<close> clause; the \<open>finally\<close>
  clause emits \<open>finished\<close> on every path.
\<close>

datatype signal = ModelsFetched "string list" | GenerationComplete gen_result
  | ErrorSignal string | Finished

datatype task =
    FetchTask string string "string \<Rightarrow> exc + models_reply"
  | GenerateTask generate_args
  | OtherTask "exc + unit"

fun call_fn :: "task \<Rightarrow> exc + signal list" where
  "call_fn (FetchTask api_endpoint api_type http_get) =
     (case fst (fetch_installed_models api_endpoint api_type http_get) of
        Inl e \<Rightarrow> Inl e | Inr result \<Rightarrow> Inr [ModelsFetched result])"
| "call_fn (GenerateTask a) =
     (case generate_text a of
        Inl e \<Rightarrow> Inl e | Inr result \<Rightarrow> Inr [GenerationComplete result])"
| "call_fn (OtherTask r) = (case r of Inl e \<Rightarrow> Inl e | Inr u \<Rightarrow> Inr [])"

definition run :: "task \<Rightarrow> signal list" where
  "run t =
     (case call_fn t of
        Inr emitted \<Rightarrow> emitted
      | Inl e \<Rightarrow> (if is_Exception e then [ErrorSignal (str_exc e)] else []))
     @ [Finished]"

fun is_outcome :: "signal \<Rightarrow> bool" where
  "is_outcome Finished = False"
| "is_outcome s = True"

text \<open>
  The failures of the taxonomy as conditions on a task's inputs: no endpoint, no model,
  an API type that is neither \<open>Ollama\<close> nor \<open>OpenAI\<close>, or a collaborator that raises an
  \<open>Exception\<close> (connection failure, timeout, HTTP error status, undecodable JSON, a
  reply on whose shape the extraction raises), or a chat reply without choices. Apart
  from these stands the decoded reply that only lacks the expected field: no
  \<open>models\<close> key for FetchModels (\<open>fetch_lacks_key\<close>), no \<open>response\<close> or no message
  \<open>content\<close> for Generate (\<open>generate_lacks_field\<close>).
\<close>

definition fetch_url :: "string \<Rightarrow> string \<Rightarrow> string" where
  "fetch_url api_endpoint api_type =
     api_endpoint @ (if api_type = ''Ollama'' then ''/api/tags'' else ''/v1/models'')"

definition fetch_fails :: "string \<Rightarrow> string \<Rightarrow> (string \<Rightarrow> exc + models_reply) \<Rightarrow> bool" where
  "fetch_fails api_endpoint api_type http_get =
     (api_endpoint = [] \<or> api_type \<notin> {''Ollama'', ''OpenAI''}
      \<or> (case http_get (fetch_url api_endpoint api_type) of
            Inl e \<Rightarrow> is_Exception e | Inr ms \<Rightarrow> False))"

definition generate_fails :: "generate_args \<Rightarrow> bool" where
  "generate_fails a =
     (g_api_endpoint a = [] \<or> g_selected_model a = []
      \<or> g_api_type a \<notin> {''Ollama'', ''OpenAI''}
      \<or> (g_api_type a = ''Ollama'' \<and>
           (case g_format a (g_system_prompt_content a) (g_example_text a) (g_user_input a) of
              Inl e \<Rightarrow> is_Exception e
            | Inr p \<Rightarrow>
                (case g_post_generate a (g_api_endpoint a @ ''/api/generate'')
                        (g_selected_model a) p of
                   Inl e \<Rightarrow> is_Exception e | Inr t \<Rightarrow> False)))
      \<or> (g_api_type a = ''OpenAI'' \<and>
           (case g_post_chat a (g_api_endpoint a @ ''/v1/chat/completions'')
                   (g_selected_model a)
                   (chat_messages (g_system_prompt_content a) (g_example_text a)
                      (g_user_input a)) of
              Inl e \<Rightarrow> is_Exception e | Inr cs \<Rightarrow> cs = [])))"

definition fetch_lacks_key :: "string \<Rightarrow> string \<Rightarrow> (string \<Rightarrow> exc + models_reply) \<Rightarrow> bool" where
  "fetch_lacks_key api_endpoint api_type http_get =
     (api_endpoint \<noteq> [] \<and> api_type \<in> {''Ollama'', ''OpenAI''}
      \<and> http_get (fetch_url api_endpoint api_type) = Inr None)"

definition generate_lacks_field :: "generate_args \<Rightarrow> bool" where
  "generate_lacks_field a =
     (g_api_endpoint a \<noteq> [] \<and> g_selected_model a \<noteq> []
      \<and> ((g_api_type a = ''Ollama'' \<and>
            (case g_format a (g_system_prompt_content a) (g_example_text a) (g_user_input a) of
               Inl e \<Rightarrow> False
             | Inr p \<Rightarrow>
                 g_post_generate a (g_api_endpoint a @ ''/api/generate'')
                   (g_selected_model a) p = Inr None))
           \<or> (g_api_type a = ''OpenAI'' \<and>
               (case g_post_chat a (g_api_endpoint a @ ''/v1/chat/completions'')
                       (g_selected_model a)
                       (chat_messages (g_system_prompt_content a) (g_example_text a)
                          (g_user_input a)) of
                  Inl e \<Rightarrow> False
                | Inr cs \<Rightarrow> (case cs of [] \<Rightarrow> False | c # others \<Rightarrow> c = None)))))"

definition timeout_get :: "string \<Rightarrow> exc + models_reply" where
  "timeout_get url = Inl (Timeout ''timed out'')"

definition keyless_get :: "string \<Rightarrow> exc + models_reply" where
  "keyless_get url = Inr None"

definition keyless_post :: "string \<Rightarrow> string \<Rightarrow> string \<Rightarrow> exc + string option" where
  "keyless_post url model prompt = Inr None"

definition no_format :: "string \<Rightarrow> string \<Rightarrow> string \<Rightarrow> exc + string" where
  "no_format template example_text user_input = Inr template"

definition refused_post :: "string \<Rightarrow> string \<Rightarrow> string \<Rightarrow> exc + string option" where
  "refused_post url model prompt = Inl (RequestException ''connection refused'')"

definition no_chat :: "string \<Rightarrow> string \<Rightarrow> (string \<times> string) list \<Rightarrow> exc + string option list" where
  "no_chat url model messages = Inr []"

definition refused_generate :: generate_args where
  "refused_generate =
     \<lparr>g_api_endpoint = ''http://localhost:11434'', g_api_type = ''Ollama'',
      g_selected_model = ''llama3'', g_system_prompt_content = ''write'',
      g_user_input = ''a cat'', g_example_text = ''a dog'',
      g_format = no_format, g_post_generate = refused_post, g_post_chat = no_chat\<rparr>"

definition keyless_generate :: generate_args where
  "keyless_generate = refused_generate\<lparr>g_post_generate := keyless_post\<rparr>"

section \<open>main_window.py: the window\<close>

text \<open>
  The files the window reads and writes: a path names no file, or a file with its text
  and whether opening it for reading and for writing succeeds. A path that names no file
  can be created. Text is what Python reads and writes as \<open>str\<close>.
\<close>

datatype disk_file = File (data: string) (readable: bool) (appendable: bool)

type_synonym filesystem = "string \<rightharpoonup> disk_file"

definition path_exists :: "filesystem \<Rightarrow> string \<Rightarrow> bool" where
  "path_exists files p = (p \<noteq> [] \<and> files p \<noteq> None)"

definition getsize :: "filesystem \<Rightarrow> string \<Rightarrow> nat" where
  "getsize files p = (case files p of None \<Rightarrow> 0 | Some f \<Rightarrow> length (data f))"

text \<open>\<open>open(p, "r").read()\<close>: the text, or \<open>None\<close> when opening or reading raises.\<close>

definition read_file :: "filesystem \<Rightarrow> string \<Rightarrow> string option" where
  "read_file files p =
     (if p = [] then None
      else case files p of
             None \<Rightarrow> None
           | Some f \<Rightarrow> (if readable f then Some (data f) else None))"

text \<open>\<open>open(p, "w")\<close> and \<open>open(p, "a")\<close> followed by one write: the new files, or
  \<open>None\<close> when opening raises.\<close>

definition write_file :: "filesystem \<Rightarrow> string \<Rightarrow> string \<Rightarrow> filesystem option" where
  "write_file files p txt =
     (if p = [] then None
      else case files p of
             None \<Rightarrow> Some (files(p \<mapsto> File txt True True))
           | Some f \<Rightarrow>
               (if appendable f then Some (files(p \<mapsto> File txt (readable f) True)) else None))"

definition append_file :: "filesystem \<Rightarrow> string \<Rightarrow> string \<Rightarrow> filesystem option" where
  "append_file files p txt =
     (if p = [] then None
      else case files p of
             None \<Rightarrow> Some (files(p \<mapsto> File txt True True))
           | Some f \<Rightarrow>
               (if appendable f then Some (files(p \<mapsto> File (data f @ txt) (readable f) True))
                else None))"

definition basename :: "string \<Rightarrow> string" where
  "basename p = rev (takeWhile (\<lambda>c. c \<noteq> CHR ''/'') (rev p))"

definition lower_char :: "char \<Rightarrow> char" where
  "lower_char c =
     (let n = (of_char c :: nat)
      in if (65 \<le> n \<and> n \<le> 90) \<or> (192 \<le> n \<and> n \<le> 222 \<and> n \<noteq> 215)
         then char_of (n + 32) else c)"

definition lower :: "string \<Rightarrow> string" where
  "lower s = map lower_char s"

text \<open>Python truth of a path attribute: neither \<open>None\<close> nor the empty string.\<close>

fun truthy :: "string option \<Rightarrow> bool" where
  "truthy None = False"
| "truthy (Some p) = (p \<noteq> [])"

text \<open>
  Message boxes shown, as (title, message); the text of a caught exception is left out
  of the message. The first four are the Qt boxes of the window, the last three the
  tkinter boxes of \<open>prompt_manager\<close>.
\<close>

datatype dialog = Critical string string | Warning string string
  | Information string string | Question string string
  | TkError string string | TkWarning string string | TkAskYesNo string string

text \<open>
  The attributes and widgets of \<open>MainWindow\<close> that the handlers below read or write.
  Widgets appear by the property used: the text of an editor, whether it is enabled or
  read-only, whether a button is enabled, the current index of the stacked widget and
  the current row of a list. The status bar, tool tips and style sheets are left out.
  The user is part of the state: \<open>answers\<close> are the replies to the confirmation boxes
  still to come, \<open>picks\<close> the results of the file dialogs still to come (the empty
  string for a cancelled dialog). \<open>prompt_dir\<close> is the listing of \<open>system_prompts\<close>
  in the order of \<open>os.listdir\<close>, \<open>prompt_dir_writable\<close> whether \<open>os.remove\<close>
  succeeds there.
\<close>

record window =
  current_index :: nat
  nav_row :: nat
  save_target_file :: "string option"
  current_prompt_editor_file :: "string option"
  prompt_editor_dirty :: bool
  system_prompt_editor_dirty :: bool
  pe_editor_text :: string
  pe_editor_enabled :: bool
  pe_editor_read_only :: bool
  pe_save_button_enabled :: bool
  pe_close_button_enabled :: bool
  save_gen_button_enabled :: bool
  save_button_enabled :: bool
  pe_filename_label :: string
  response_display :: string
  files :: filesystem
  answers :: "bool list"
  picks :: "string list"
  dialogs :: "dialog list"
  prompt_list :: "string list"
  prompt_list_row :: "nat option"
  active_system_prompt_file :: string
  current_system_prompt_content :: string
  system_prompt_editor_text :: string
  system_prompt_editor_enabled :: bool
  prompt_dir :: "(string \<times> disk_file) list"
  prompt_dir_writable :: bool
  api_endpoint :: string
  api_type :: string
  api_key :: string
  config :: pydict
  config_json :: config_file

definition GENERATOR_VIEW_INDEX :: nat where "GENERATOR_VIEW_INDEX = 0"
definition PROMPT_EDITOR_VIEW_INDEX :: nat where "PROMPT_EDITOR_VIEW_INDEX = 1"
definition SYSTEM_PROMPTS_VIEW_INDEX :: nat where "SYSTEM_PROMPTS_VIEW_INDEX = 2"
definition SETTINGS_VIEW_INDEX :: nat where "SETTINGS_VIEW_INDEX = 3"

definition DEFAULT_PROMPT_NAME :: string where
  "DEFAULT_PROMPT_NAME = ''default.txt''"

subsection \<open>Message boxes and file dialogs\<close>

definition show_error_message :: "string \<Rightarrow> string \<Rightarrow> window \<Rightarrow> window" where
  "show_error_message title message s = s\<lparr>dialogs := dialogs s @ [Critical title message]\<rparr>"

definition show_warning_message :: "string \<Rightarrow> string \<Rightarrow> window \<Rightarrow> window" where
  "show_warning_message title message s = s\<lparr>dialogs := dialogs s @ [Warning title message]\<rparr>"

definition show_info_message :: "string \<Rightarrow> string \<Rightarrow> window \<Rightarrow> window" where
  "show_info_message title message s =
     s\<lparr>dialogs := dialogs s @ [Information title message]\<rparr>"

text \<open>
  \<open>confirm_action\<close> shows a Yes/No box and returns whether the user chose Yes. With no
  reply left the box cannot be shown and the result is \<open>False\<close>, as in the handlers of
  the source for a box that fails to display.
\<close>

definition confirm_action :: "string \<Rightarrow> string \<Rightarrow> window \<Rightarrow> bool \<times> window" where
  "confirm_action title message s =
     (case answers s of
        [] \<Rightarrow> (False, s)
      | confirmed # later \<Rightarrow>
          (confirmed, s\<lparr>answers := later, dialogs := dialogs s @ [Question title message]\<rparr>))"

definition askyesno :: "string \<Rightarrow> string \<Rightarrow> window \<Rightarrow> bool \<times> window" where
  "askyesno title message s =
     (case answers s of
        [] \<Rightarrow> (False, s)
      | confirmed # later \<Rightarrow>
          (confirmed, s\<lparr>answers := later, dialogs := dialogs s @ [TkAskYesNo title message]\<rparr>))"

definition file_dialog :: "window \<Rightarrow> string \<times> window" where
  "file_dialog s =
     (case picks s of [] \<Rightarrow> ([], s) | filepath # later \<Rightarrow> (filepath, s\<lparr>picks := later\<rparr>))"

subsection \<open>Dirty flags\<close>

text \<open>
  \<open>_pe_mark_dirty\<close> and \<open>_mark_dirty\<close> are the slots of the editors' \<open>textChanged\<close>
  signals; every change of an editor's text, by the user or by \<open>setPlainText\<close> and
  \<open>clear\<close>, runs them. The names of the source lose their leading underscore here.
\<close>

definition pe_mark_dirty :: "window \<Rightarrow> window" where
  "pe_mark_dirty s =
     (if pe_editor_enabled s \<and> \<not> pe_editor_read_only s
      then s\<lparr>prompt_editor_dirty := True,
             pe_save_button_enabled := (current_prompt_editor_file s \<noteq> None)\<rparr>
      else s)"

definition pe_clear_dirty_flag :: "window \<Rightarrow> window" where
  "pe_clear_dirty_flag s = s\<lparr>prompt_editor_dirty := False, pe_save_button_enabled := False\<rparr>"

definition current_item :: "window \<Rightarrow> string option" where
  "current_item s =
     (case prompt_list_row s of
        None \<Rightarrow> None
      | Some r \<Rightarrow> (if r < length (prompt_list s) then Some (prompt_list s ! r) else None))"

definition mark_dirty :: "window \<Rightarrow> window" where
  "mark_dirty s =
     (if system_prompt_editor_enabled s
      then s\<lparr>system_prompt_editor_dirty := True,
             save_button_enabled := (current_item s \<noteq> None)\<rparr>
      else s)"

definition clear_dirty_flag :: "window \<Rightarrow> window" where
  "clear_dirty_flag s = s\<lparr>system_prompt_editor_dirty := False, save_button_enabled := False\<rparr>"

definition pe_editor_setPlainText :: "string \<Rightarrow> window \<Rightarrow> window" where
  "pe_editor_setPlainText txt s = pe_mark_dirty (s\<lparr>pe_editor_text := txt\<rparr>)"

definition system_prompt_editor_setPlainText :: "string \<Rightarrow> window \<Rightarrow> window" where
  "system_prompt_editor_setPlainText txt s = mark_dirty (s\<lparr>system_prompt_editor_text := txt\<rparr>)"

text \<open>A user edit reaches the editor only while it is enabled and not read-only.\<close>

definition pe_user_edit :: "string \<Rightarrow> window \<Rightarrow> window" where
  "pe_user_edit txt s =
     (if pe_editor_enabled s \<and> \<not> pe_editor_read_only s then pe_editor_setPlainText txt s
      else s)"

subsection \<open>Prompt Editor slots\<close>

definition pe_close_file :: "bool \<Rightarrow> window \<Rightarrow> window" where
  "pe_close_file force s =
     (if \<not> truthy (current_prompt_editor_file s) then s
      else
        let (go, s) = (if \<not> force \<and> prompt_editor_dirty s
                       then confirm_action ''Unsaved'' ''Discard editor changes?'' s
                       else (True, s))
        in if \<not> go then s
           else
             let s = pe_editor_setPlainText [] s;
                 s = s\<lparr>pe_editor_enabled := False, pe_editor_read_only := True,
                        pe_filename_label := ''No file open.''\<rparr>;
                 s = (if current_prompt_editor_file s = save_target_file s
                      then s\<lparr>save_target_file := None, save_gen_button_enabled := False\<rparr>
                      else s);
                 s = s\<lparr>current_prompt_editor_file := None\<rparr>;
                 s = pe_clear_dirty_flag s
             in s\<lparr>pe_save_button_enabled := False, pe_close_button_enabled := False\<rparr>)"

text \<open>
  The value that \<open>_pe_close_file\<close> returns, path by path: the bare \<open>return\<close> when no
  file is open, the bare \<open>return\<close> after a declined confirmation, and the end of the
  body after the file has been closed. The state it leaves is \<open>pe_close_file\<close> above.
\<close>

datatype pyvalue = PyNone | PyBool bool

definition pe_close_file_returns :: "bool \<Rightarrow> window \<Rightarrow> pyvalue" where
  "pe_close_file_returns force s =
     (if \<not> truthy (current_prompt_editor_file s) then PyNone
      else if \<not> force \<and> prompt_editor_dirty s
              \<and> \<not> fst (confirm_action ''Unsaved'' ''Discard editor changes?'' s)
      then PyNone
      else PyNone)"

definition load_file_into_pe_editor :: "string \<Rightarrow> window \<Rightarrow> window" where
  "load_file_into_pe_editor filepath s =
     (case (if path_exists (files s) filepath then read_file (files s) filepath else None) of
        Some txt \<Rightarrow>
          (let s = s\<lparr>save_target_file := Some filepath,
                     current_prompt_editor_file := Some filepath\<rparr>;
               s = pe_editor_setPlainText txt s;
               s = s\<lparr>pe_filename_label := basename filepath, pe_editor_enabled := True,
                      pe_editor_read_only := False, pe_close_button_enabled := True\<rparr>
           in pe_clear_dirty_flag s)
      | None \<Rightarrow>
          pe_close_file True
            (show_error_message ''File Error'' (''Read fail:'' @ [CHR 0x0A] @ filepath) s))"

definition pe_open_file :: "window \<Rightarrow> window" where
  "pe_open_file s =
     (let (filepath, s) = file_dialog s
      in if filepath \<noteq> [] then
           (if prompt_editor_dirty s then
              (let (confirmed, s) = confirm_action ''Unsaved'' ''Discard editor changes?'' s
               in if \<not> confirmed then s else load_file_into_pe_editor filepath s)
            else load_file_into_pe_editor filepath s)
         else s)"

definition pe_save_file :: "window \<Rightarrow> window" where
  "pe_save_file s =
     (case current_prompt_editor_file s of
        None \<Rightarrow> show_warning_message ''Save Error'' ''No file open.'' s
      | Some p \<Rightarrow>
          (if p = [] then show_warning_message ''Save Error'' ''No file open.'' s
           else if \<not> prompt_editor_dirty s then s
           else case write_file (files s) p (pe_editor_text s) of
                  Some written \<Rightarrow> pe_clear_dirty_flag (s\<lparr>files := written\<rparr>)
                | None \<Rightarrow>
                    show_error_message ''Save Error'' (''Save fail:'' @ [CHR 0x0A] @ p) s))"

subsection \<open>Saving generated prompts\<close>

text \<open>
  \<open>_ask_save_target_file\<close> returns \<open>True\<close> or \<open>False\<close>; the result is \<open>None\<close>
  when it raises: in the branch of the declined confirmation \<open>os.path.basename\<close> is
  applied to \<open>current_prompt_editor_file\<close>, a TypeError when that is \<open>None\<close>. The
  exception leaves the slot with the assignments made so far.
\<close>

definition ask_save_target_file :: "window \<Rightarrow> bool option \<times> window" where
  "ask_save_target_file s =
     (let (filepath, s) = file_dialog s
      in if filepath \<noteq> [] then
           (let s = s\<lparr>save_target_file := Some filepath\<rparr>
            in if prompt_editor_dirty s then
                 (let current_fn = (if truthy (current_prompt_editor_file s)
                                    then basename (the (current_prompt_editor_file s))
                                    else ''prev file'');
                      (confirmed, s) =
                        confirm_action ''Unsaved Changes''
                          (''Set new save file ('' @ basename filepath
                           @ ''). Discard unsaved changes in Editor for '' @ current_fn @ ''?'') s
                  in if confirmed then (Some True, load_file_into_pe_editor filepath s)
                     else (case current_prompt_editor_file s of
                             None \<Rightarrow> (None, s)
                           | Some p \<Rightarrow>
                               (Some True,
                                s\<lparr>pe_filename_label := basename p @ ''* (Out of sync)''\<rparr>)))
               else (Some True, load_file_into_pe_editor filepath s))
         else (Some False, s\<lparr>save_target_file := None\<rparr>))"

definition separator :: string where
  "separator = [CHR 0x0A, CHR 0x0A] @ replicate 20 (CHR ''='') @ [CHR 0x0A, CHR 0x0A]"

text \<open>
  The \<open>try\<close> block of \<open>_save_generated_prompt\<close>: the append, then the refresh of the
  Prompt Editor when the target is the file open there. With no target
  \<open>os.path.exists(None)\<close> raises and the last handler reports it.
\<close>

definition append_generated :: "string \<Rightarrow> window \<Rightarrow> window" where
  "append_generated generated_text s =
     (case save_target_file s of
        None \<Rightarrow> show_error_message ''Save Error'' ''Unexpected save error:'' s
      | Some target \<Rightarrow>
          (let add_sep = (path_exists (files s) target \<and> getsize (files s) target > 0)
           in case append_file (files s) target
                     ((if add_sep then separator else []) @ generated_text) of
                None \<Rightarrow>
                  show_error_message ''Save Error''
                    (''IOError writing:'' @ [CHR 0x0A] @ target) s
              | Some written \<Rightarrow>
                  (let s = s\<lparr>files := written\<rparr>
                   in if save_target_file s = current_prompt_editor_file s then
                        (if prompt_editor_dirty s then
                           (let (confirmed, s) =
                                  confirm_action ''File Updated''
                                    ''File updated externally. Discard editor changes to see update?'' s
                            in if confirmed then load_file_into_pe_editor target s
                               else s\<lparr>pe_filename_label :=
                                         basename target @ ''* (External change)''\<rparr>)
                         else load_file_into_pe_editor target s)
                      else s)))"

definition save_generated_prompt :: "window \<Rightarrow> window" where
  "save_generated_prompt s =
     (let generated_text = strip (response_display s)
      in if generated_text = [] \<or> contains generated_text ''Generating...''
            \<or> contains generated_text ''Error:''
         then show_warning_message ''Save Error'' ''No valid prompt to save.'' s
         else if save_target_file s = None then
           (case ask_save_target_file s of
              (Some True, s) \<Rightarrow> append_generated generated_text s
            | (other, s) \<Rightarrow> s)
         else append_generated generated_text s)"

subsection \<open>Navigation\<close>

text \<open>
  \<open>_on_nav_changed\<close> is the slot of the navigation list's \<open>currentRowChanged\<close>:
  when it runs, the list already shows the new row (\<open>nav_click\<close>). The stacked widget
  has four pages and ignores any other index.
\<close>

definition sync_prompt_editor :: "window \<Rightarrow> window" where
  "sync_prompt_editor s =
     (if truthy (save_target_file s) \<and> save_target_file s \<noteq> current_prompt_editor_file s
      then load_file_into_pe_editor (the (save_target_file s)) s
      else if \<not> truthy (save_target_file s) \<and> truthy (current_prompt_editor_file s)
      then pe_close_file True s
      else if \<not> truthy (save_target_file s) \<and> \<not> truthy (current_prompt_editor_file s)
      then (let s = pe_editor_setPlainText [] s
            in s\<lparr>pe_editor_enabled := False, pe_editor_read_only := True,
                  pe_save_button_enabled := False, pe_close_button_enabled := False,
                  pe_filename_label := ''No file open.''\<rparr>)
      else s)"

definition on_nav_changed :: "nat \<Rightarrow> window \<Rightarrow> window" where
  "on_nav_changed current_row s =
     (let previous_index = current_index s;
          (can_switch, s) =
            (if previous_index = SYSTEM_PROMPTS_VIEW_INDEX \<and> system_prompt_editor_dirty s then
               (let (can_switch, s) =
                      confirm_action ''Unsaved Changes''
                        ''Discard unsaved changes in the system prompt editor?'' s
                in (can_switch, if can_switch then clear_dirty_flag s else s))
             else if previous_index = PROMPT_EDITOR_VIEW_INDEX \<and> prompt_editor_dirty s then
               (let (can_switch, s) =
                      confirm_action ''Unsaved Changes''
                        ''Discard unsaved changes to the saved prompts file?'' s
                in (can_switch, if can_switch then pe_clear_dirty_flag s else s))
             else (True, s))
      in if can_switch then
           (let s = (if current_row < 4 then s\<lparr>current_index := current_row\<rparr> else s)
            in if current_row = PROMPT_EDITOR_VIEW_INDEX then sync_prompt_editor s else s)
         else s\<lparr>nav_row := previous_index\<rparr>)"

definition nav_click :: "nat \<Rightarrow> window \<Rightarrow> window" where
  "nav_click row s = on_nav_changed row (s\<lparr>nav_row := row\<rparr>)"

section \<open>prompt_manager.py\<close>

text \<open>
  The functions of \<open>prompt_manager\<close> act on the directory \<open>system_prompts\<close> and show
  tkinter boxes; both are part of the window state above.
\<close>

definition get_prompt_presets :: "window \<Rightarrow> string list" where
  "get_prompt_presets s =
     (let found = filter (\<lambda>f. endswith f ''.txt'') (map fst (prompt_dir s))
      in if DEFAULT_PROMPT_NAME \<in> set found
         then DEFAULT_PROMPT_NAME # remove1 DEFAULT_PROMPT_NAME found
         else found)"

definition load_prompt_text :: "string \<Rightarrow> window \<Rightarrow> string \<times> window" where
  "load_prompt_text filename s =
     (if filename = [] then ([], s)
      else case map_of (prompt_dir s) filename of
             None \<Rightarrow>
               ([], s\<lparr>dialogs := dialogs s
                        @ [TkError ''Error'' (''Prompt file not found: '' @ filename)]\<rparr>)
           | Some f \<Rightarrow>
               (if readable f then (data f, s)
                else ([], s\<lparr>dialogs := dialogs s
                             @ [TkError ''Error'' (''Error reading prompt file '' @ filename)]\<rparr>)))"

definition delete_prompt_preset :: "string \<Rightarrow> window \<Rightarrow> bool \<times> window" where
  "delete_prompt_preset filename s =
     (if filename = [] \<or> filename = DEFAULT_PROMPT_NAME then
        (False, s\<lparr>dialogs := dialogs s
                    @ [TkWarning ''Delete Prevented''
                         ''Cannot delete the default prompt or an empty selection.'']\<rparr>)
      else if map_of (prompt_dir s) filename \<noteq> None then
        (let (confirm, s) =
               askyesno ''Confirm Delete''
                 (''Are you sure you want to delete '' @ filename @ ''?'') s
         in if confirm then
              (if prompt_dir_writable s
               then (True, s\<lparr>prompt_dir := filter (\<lambda>(n, f). n \<noteq> filename) (prompt_dir s)\<rparr>)
               else (False, s\<lparr>dialogs := dialogs s
                                @ [TkError ''Error''
                                     (''Error deleting prompt file '' @ filename)]\<rparr>))
            else (False, s))
      else (False, s\<lparr>dialogs := dialogs s
                       @ [TkError ''Error''
                            (''Prompt file not found for deletion: '' @ filename)]\<rparr>))"

section \<open>main_window.py: system prompt presets\<close>

definition load_active_system_prompt_content :: "window \<Rightarrow> window" where
  "load_active_system_prompt_content s =
     (let (txt, s) = load_prompt_text (active_system_prompt_file s) s
      in s\<lparr>current_system_prompt_content := txt\<rparr>)"

definition save_window_config :: "window \<Rightarrow> window" where
  "save_window_config s =
     (let c = AList.update ''api_type'' (JStr (api_type s)) (config s);
          c = AList.update ''api_endpoint'' (JStr (api_endpoint s)) c;
          c = AList.update ''api_key'' (JStr (api_key s)) c;
          c = AList.update ''active_system_prompt'' (JStr (active_system_prompt_file s)) c
      in s\<lparr>config := c, config_json := save_config c (config_json s)\<rparr>)"

definition load_selected_preset :: "window \<Rightarrow> window" where
  "load_selected_preset s =
     (case current_item s of
        Some filename \<Rightarrow>
          (let (txt, s) = load_prompt_text filename s;
               s = s\<lparr>system_prompt_editor_enabled := True\<rparr>;
               s = system_prompt_editor_setPlainText txt s
           in clear_dirty_flag s)
      | None \<Rightarrow>
          (let s = system_prompt_editor_setPlainText [] s;
               s = s\<lparr>system_prompt_editor_enabled := False\<rparr>
           in clear_dirty_flag s))"

text \<open>
  \<open>_on_preset_select\<close> is the slot of the preset list's \<open>currentItemChanged\<close>; the
  list already shows the new row, and \<open>previous\<close> is the row it showed before.
\<close>

definition on_preset_select :: "nat option \<Rightarrow> window \<Rightarrow> window" where
  "on_preset_select previous s =
     (if system_prompt_editor_dirty s then
        (let (confirmed, s) = confirm_action ''Unsaved'' ''Discard sys prompt changes?'' s
         in if confirmed then load_selected_preset s
            else (case previous of None \<Rightarrow> s | Some r \<Rightarrow> s\<lparr>prompt_list_row := Some r\<rparr>))
      else load_selected_preset s)"

fun find_index_of :: "string \<Rightarrow> string list \<Rightarrow> nat option" where
  "find_index_of x [] = None"
| "find_index_of x (y # ys) =
     (if x = y then Some 0 else map_option Suc (find_index_of x ys))"

definition update_preset_list :: "window \<Rightarrow> window" where
  "update_preset_list s =
     (let selected_text = current_item s;
          s = s\<lparr>prompt_list := get_prompt_presets s, prompt_list_row := None\<rparr>;
          restored = (if truthy selected_text
                      then find_index_of (the selected_text) (prompt_list s) else None)
      in case restored of
           Some r \<Rightarrow> s\<lparr>prompt_list_row := Some r\<rparr>
         | None \<Rightarrow>
             (if length (prompt_list s) > 0
              then load_selected_preset (s\<lparr>prompt_list_row := Some 0\<rparr>)
              else load_selected_preset s))"

definition set_current_row :: "nat \<Rightarrow> window \<Rightarrow> window" where
  "set_current_row r s =
     (if prompt_list_row s = Some r then s
      else on_preset_select (prompt_list_row s) (s\<lparr>prompt_list_row := Some r\<rparr>))"

definition delete_selected_preset :: "window \<Rightarrow> window" where
  "delete_selected_preset s =
     (case current_item s of
        None \<Rightarrow> show_warning_message ''Delete Error'' ''No preset selected.'' s
      | Some filename \<Rightarrow>
          (if lower filename = lower DEFAULT_PROMPT_NAME then
             show_warning_message ''Delete Prevented''
               (''Cannot delete default '' @ DEFAULT_PROMPT_NAME @ ''.'') s
           else
             (let (deleted, s) = delete_prompt_preset filename s
              in if deleted then
                   (let s = (if filename = active_system_prompt_file s then
                               (let s = show_info_message ''Active Deleted''
                                          (''Active '' @ filename @ '' deleted. Reset default.'') s;
                                    s = s\<lparr>active_system_prompt_file := DEFAULT_PROMPT_NAME\<rparr>;
                                    s = load_active_system_prompt_content s
                                in save_window_config s)
                             else s);
                        current_row = the (prompt_list_row s);
                        s = update_preset_list s
                    in if length (prompt_list s) > 0
                       then set_current_row (min current_row (length (prompt_list s) - 1)) s
                       else load_selected_preset s)
                 else s)))"

subsection \<open>User actions\<close>

text \<open>
  The actions of the user that reach the Prompt Editor session, each running the slot
  connected to it.
\<close>

datatype event = NavClick nat | PeEdit string | PeOpen | PeSave | PeClose | SaveGenerated

fun handle :: "event \<Rightarrow> window \<Rightarrow> window" where
  "handle (NavClick row) s = nav_click row s"
| "handle (PeEdit txt) s = pe_user_edit txt s"
| "handle PeOpen s = pe_open_file s"
| "handle PeSave s = pe_save_file s"
| "handle PeClose s = pe_close_file False s"
| "handle SaveGenerated s = save_generated_prompt s"

subsection \<open>Concrete windows\<close>

text \<open>
  The window as \<open>__init__\<close> and \<open>_setup_ui\<close> leave it, with an empty disk and a
  user who has nothing to say; and two files used in the scenarios below.
\<close>

definition initial_window :: window where
  "initial_window =
     \<lparr>current_index = GENERATOR_VIEW_INDEX, nav_row = GENERATOR_VIEW_INDEX,
      save_target_file = None, current_prompt_editor_file = None,
      prompt_editor_dirty = False, system_prompt_editor_dirty = False,
      pe_editor_text = [], pe_editor_enabled = False, pe_editor_read_only = True,
      pe_save_button_enabled = False, pe_close_button_enabled = False,
      save_gen_button_enabled = False, save_button_enabled = False,
      pe_filename_label = ''No file open.'', response_display = [],
      files = Map.empty, answers = [], picks = [], dialogs = [],
      prompt_list = [], prompt_list_row = None,
      active_system_prompt_file = ''default.txt'', current_system_prompt_content = [],
      system_prompt_editor_text = [], system_prompt_editor_enabled = False,
      prompt_dir = [], prompt_dir_writable = True,
      api_endpoint = ''http://localhost:11434'', api_type = ''Ollama'', api_key = [],
      config = DEFAULT_CONFIG, config_json = \<lparr>content = Missing, writable = True\<rparr>\<rparr>"

definition a_txt :: string where "a_txt = ''saved_prompts/a.txt''"

definition b_txt :: string where "b_txt = ''saved_prompts/b.txt''"

text \<open>
  A window in which \<open>a.txt\<close> has been opened in the Prompt Editor (which makes it the
  save target), and the same window after the user has typed in the editor.
\<close>

definition opened_window :: window where
  "opened_window =
     handle PeOpen
       (initial_window\<lparr>files := [a_txt \<mapsto> File ''old'' True True], picks := [a_txt]\<rparr>)"

definition edited_window :: window where
  "edited_window = handle (PeEdit ''edited'') opened_window"

subsection \<open>Windows the program can reach\<close>




subsection \<open>Predicates used in the statements\<close>

text \<open>
  \<open>load_fails\<close>: the file is not found or reading it raises. \<open>valid_generated\<close>: the
  text passes the check at the head of \<open>_save_generated_prompt\<close>. \<open>can_append\<close>:
  \<open>open(p, "a")\<close> succeeds. \<open>appended\<close>: what the file holds after the append.
\<close>

definition load_fails :: "string \<Rightarrow> window \<Rightarrow> bool" where
  "load_fails filepath s = (\<not> path_exists (files s) filepath \<or> read_file (files s) filepath = None)"

definition valid_generated :: "string \<Rightarrow> bool" where
  "valid_generated t =
     (t \<noteq> [] \<and> \<not> contains t ''Generating...'' \<and> \<not> contains t ''Error:'')"

definition can_append :: "filesystem \<Rightarrow> string \<Rightarrow> bool" where
  "can_append fs p = (p \<noteq> [] \<and> (case fs p of None \<Rightarrow> True | Some f \<Rightarrow> appendable f))"

definition appended :: "filesystem \<Rightarrow> string \<Rightarrow> string \<Rightarrow> string" where
  "appended fs p t =
     (case fs p of
        None \<Rightarrow> t
      | Some f \<Rightarrow> (if data f = [] then t else data f @ separator @ t))"

text \<open>
  The Prompt Editor session is closed (no file, no text, editor disabled), or its text is
  the text of its file on disk, as after a load or a save. A navigation click is
  authorised when the window shows the Prompt Editor and the user answers Yes.
\<close>

definition pe_closed :: "window \<Rightarrow> bool" where
  "pe_closed s = (current_prompt_editor_file s = None \<and> pe_editor_text s = []
                  \<and> \<not> pe_editor_enabled s)"

definition pe_on_disk :: "window \<Rightarrow> bool" where
  "pe_on_disk s =
     (case current_prompt_editor_file s of
        None \<Rightarrow> False
      | Some p \<Rightarrow> map_option data (files s p) = Some (pe_editor_text s))"

definition authorised_nav :: "event \<Rightarrow> window \<Rightarrow> bool" where
  "authorised_nav e s =
     (case e of
        NavClick row \<Rightarrow>
          current_index s = PROMPT_EDITOR_VIEW_INDEX
          \<and> (case answers s of [] \<Rightarrow> False | confirmed # later \<Rightarrow> confirmed)
      | _ \<Rightarrow> False)"

definition accounted :: "window \<Rightarrow> bool" where
  "accounted s = (prompt_editor_dirty s \<or> pe_closed s \<or> pe_on_disk s)"

text \<open>
  The scenario windows: the response display holds \<open>hello\<close> and the user will choose
  \<open>a.txt\<close> as save file; after that save the display holds \<open>world\<close> (with blanks
  around it); the preset list shows two presets with the default selected.
\<close>

definition hello_window :: window where
  "hello_window = initial_window\<lparr>response_display := ''hello'', picks := [a_txt]\<rparr>"

definition world_window :: window where
  "world_window = (save_generated_prompt hello_window)\<lparr>response_display := '' world ''\<rparr>"

definition preset_window :: window where
  "preset_window =
     initial_window\<lparr>prompt_list := [''default.txt'', ''mine.txt''], prompt_list_row := Some 0,
       prompt_dir := [(''mine.txt'', File ''m'' True True), (''default.txt'', File ''d'' True True)],
       answers := [True]\<rparr>"

section \<open>Properties of config_manager.py\<close>

lemma dict_update_keys:
  "fst ` set (dict_update d kvs) = fst ` set d \<union> fst ` set kvs"
  unfolding dict_update_def
proof (induction kvs arbitrary: d)
  case Nil
  then show ?case by simp
next
  case (Cons kv kvs)
  obtain k v where kv: "kv = (k, v)" by (cases kv)
  have "fst ` set (AList.update k v d) = insert k (fst ` set d)"
    using dom_update [of k v d] by (simp add: dom_map_of_conv_image_fst)
  with Cons.IH [of "AList.update k v d"] kv show ?case by auto
qed

lemma dict_update_absent:
  "k \<notin> fst ` set kvs \<Longrightarrow> map_of (dict_update d kvs) k = map_of d k"
  unfolding dict_update_def
proof (induction kvs arbitrary: d)
  case Nil
  then show ?case by simp
next
  case (Cons kv kvs)
  obtain k' v where kv: "kv = (k', v)" by (cases kv)
  with Cons.prems have ne: "k' \<noteq> k" and rest: "k \<notin> fst ` set kvs" by auto
  have "map_of (AList.update k' v d) k = map_of d k"
    using ne by (simp add: update_conv')
  with Cons.IH [OF rest, of "AList.update k' v d"] kv show ?case by simp
qed

lemma add_missing_present:
  "fst ` set ds \<subseteq> fst ` set d \<Longrightarrow> add_missing ds (d, b) = (d, b)"
proof (induction ds arbitrary: d b)
  case Nil
  then show ?case by simp
next
  case (Cons kv ds)
  obtain k v where kv: "kv = (k, v)" by (cases kv)
  with Cons.prems have "dict_has d k" and "fst ` set ds \<subseteq> fst ` set d"
    by (auto simp: dict_has_def)
  with Cons.IH [of d b] kv show ?case by simp
qed

lemma load_config_object:
  "fst (load_config \<lparr>content = JsonObject kvs, writable = w\<rparr>)
     = Inr (dict_update DEFAULT_CONFIG kvs)"
proof -
  have "fst ` set DEFAULT_CONFIG \<subseteq> fst ` set (dict_update DEFAULT_CONFIG kvs)"
    by (simp add: dict_update_keys)
  then have "add_missing DEFAULT_CONFIG (dict_update DEFAULT_CONFIG kvs, False)
               = (dict_update DEFAULT_CONFIG kvs, False)"
    by (rule add_missing_present)
  then show ?thesis by (simp add: load_config_def)
qed

text \<open>
  In the states that \<open>load_config\<close> has a branch or a handler for (absent, IOError,
  JSONDecodeError, JSON object), it returns a dictionary that has the four keys
  \<open>api_endpoint\<close>, \<open>active_system_prompt\<close>, \<open>api_type\<close> and \<open>api_key\<close>, and a key
  that the file does not supply carries its value of \<open>DEFAULT_CONFIG\<close>.
\<close>

lemma load_config_handled:
  assumes "handled (content f)"
  shows "\<exists>cfg. fst (load_config f) = Inr cfg
           \<and> {''api_endpoint'', ''active_system_prompt'', ''api_type'', ''api_key''}
               \<subseteq> fst ` set cfg
           \<and> (\<forall>k \<in> {''api_endpoint'', ''active_system_prompt'', ''api_type'', ''api_key''}.
                 k \<notin> file_keys (content f) \<longrightarrow> map_of cfg k = map_of DEFAULT_CONFIG k)"
proof (cases "content f")
  case Missing
  then show ?thesis by (simp add: load_config_def DEFAULT_CONFIG_def)
next
  case Unreadable
  then show ?thesis by (simp add: load_config_def DEFAULT_CONFIG_def)
next
  case Undecodable
  with assms show ?thesis by simp
next
  case Corrupt
  then show ?thesis by (simp add: load_config_def DEFAULT_CONFIG_def)
next
  case TooDeep
  with assms show ?thesis by simp
next
  case JsonOther
  with assms show ?thesis by simp
next
  case (JsonObject kvs)
  then have f: "f = \<lparr>content = JsonObject kvs, writable = writable f\<rparr>" by simp
  have r: "fst (load_config f) = Inr (dict_update DEFAULT_CONFIG kvs)"
    using load_config_object [of kvs "writable f"] f by simp
  have keys: "{''api_endpoint'', ''active_system_prompt'', ''api_type'', ''api_key''}
                \<subseteq> fst ` set (dict_update DEFAULT_CONFIG kvs)"
    by (simp add: dict_update_keys DEFAULT_CONFIG_def)
  have dflt: "\<forall>k \<in> {''api_endpoint'', ''active_system_prompt'', ''api_type'', ''api_key''}.
                k \<notin> file_keys (content f)
                  \<longrightarrow> map_of (dict_update DEFAULT_CONFIG kvs) k = map_of DEFAULT_CONFIG k"
    using JsonObject by (simp add: dict_update_absent)
  from r keys dflt show ?thesis by blast
qed

text \<open>
  C10 does not hold of the code for every state of the file. A file whose bytes cannot be
  decoded (unreadable as text), a file nested too deeply for the decoder, and a file that
  holds valid JSON that is no object make \<open>load_config\<close> raise instead of returning a
  dictionary: the handlers for JSONDecodeError and IOError, which fall back to the
  defaults for a corrupt and for an unreadable file, do not cover these exceptions.
\<close>

theorem load_config_raises:
  "fst (load_config \<lparr>content = Undecodable, writable = True\<rparr>)
     = Inl (OtherException ''UnicodeDecodeError'')
   \<and> fst (load_config \<lparr>content = TooDeep, writable = True\<rparr>)
       = Inl (OtherException ''RecursionError'')
   \<and> fst (load_config \<lparr>content = JsonOther, writable = True\<rparr>)
       = Inl (TypeError ''dict.update'')
   \<and> fst (load_config \<lparr>content = Corrupt, writable = True\<rparr>) = Inr DEFAULT_CONFIG
   \<and> fst (load_config \<lparr>content = Unreadable, writable = True\<rparr>) = Inr DEFAULT_CONFIG"
  by (simp add: load_config_def)

section \<open>Properties of api_client.py and the worker\<close>

lemma endswith_append: "endswith (x @ suf) suf"
  by (simp add: endswith_def)

lemma fetch_failed_Exception:
  "is_Exception e \<Longrightarrow> fst (fetch_failed url e) = Inr []"
  by (cases e) simp_all

lemma fetch_failed_Inl:
  "fst (fetch_failed url e) = Inl x \<Longrightarrow> \<not> is_Exception x"
  by (cases e) auto

lemma generate_failed_Exception:
  "is_Exception e \<Longrightarrow> \<exists>msg. generate_failed url e = Inr (Error msg)"
  by (cases e) simp_all

lemma generate_failed_Inl:
  "generate_failed url e = Inl x \<Longrightarrow> \<not> is_Exception x"
  by (cases e) auto

lemma fetch_fails_result:
  assumes "fetch_fails ep ty h"
  shows "fst (fetch_installed_models ep ty h) = Inr []"
proof (cases "ep = [] \<or> ty \<notin> {''Ollama'', ''OpenAI''}")
  case True
  then show ?thesis by (auto simp: fetch_installed_models_def)
next
  case False
  with assms obtain e where e: "h (fetch_url ep ty) = Inl e" "is_Exception e"
    by (auto simp: fetch_fails_def split: sum.splits)
  from False e show ?thesis
    by (auto simp: fetch_installed_models_def fetch_try_def fetch_url_def endswith_append
          fetch_failed_Exception Let_def)
qed

lemma fetch_Inl:
  "fst (fetch_installed_models ep ty h) = Inl x \<Longrightarrow> \<not> is_Exception x"
  by (auto simp: fetch_installed_models_def fetch_try_def Let_def
        split: if_splits sum.splits dest: fetch_failed_Inl)

lemma generate_Inl:
  "generate_text a = Inl x \<Longrightarrow> \<not> is_Exception x"
  by (auto simp: generate_text_def Let_def
        split: if_splits sum.splits exc.splits list.splits dest: generate_failed_Inl)

lemma generate_fails_result:
  assumes "generate_fails a"
  shows "\<exists>msg. generate_text a = Inr (Error msg)"
  using assms
  apply (auto simp: generate_fails_def generate_text_def Let_def endswith_append
        split: sum.splits exc.splits list.splits)
  using generate_failed_Exception apply fastforce+
  done

text \<open>
  C5. One execution of \<open>ApiWorker.run\<close> emits at most one signal that carries an
  outcome (\<open>models_fetched\<close>, \<open>generation_complete\<close> or \<open>error\<close>), emits
  \<open>finished\<close> exactly once, and emits it last, whether the function returned or raised.
\<close>

theorem run_one_outcome:
  "length (filter is_outcome (run t)) \<le> 1
   \<and> length (filter (\<lambda>s. s = Finished) (run t)) = 1
   \<and> last (run t) = Finished"
  by (cases t) (auto simp: run_def split: sum.splits)

theorem run_one_outcome_witness:
  "run (FetchTask ''http://localhost:11434'' ''Ollama'' timeout_get) = [ModelsFetched [], Finished]
   \<and> length (filter is_outcome
         (run (FetchTask ''http://localhost:11434'' ''Ollama'' timeout_get))) \<le> 1
   \<and> last (run (OtherTask (Inl (BaseException ''exit'')))) = Finished"
  using run_one_outcome [of "FetchTask ''http://localhost:11434'' ''Ollama'' timeout_get"]
    run_one_outcome [of "OtherTask (Inl (BaseException ''exit''))"]
  by (simp add: run_def fetch_installed_models_def fetch_try_def timeout_get_def)

lemma fetch_fails_message:
  assumes "fetch_fails ep ty h"
  shows "length (snd (fetch_installed_models ep ty h)) = 1"
proof (cases "ep = [] \<or> ty \<notin> {''Ollama'', ''OpenAI''}")
  case True
  then show ?thesis by (auto simp: fetch_installed_models_def)
next
  case False
  with assms obtain e where e: "h (fetch_url ep ty) = Inl e" "is_Exception e"
    by (auto simp: fetch_fails_def split: sum.splits)
  have "length (snd (fetch_failed (fetch_url ep ty) e)) = 1"
    using e(2) by (cases e) simp_all
  with False e show ?thesis
    by (auto simp: fetch_installed_models_def fetch_try_def fetch_url_def endswith_append
          Let_def)
qed

lemma fetch_lacks_key_result:
  assumes "fetch_lacks_key ep ty h"
  shows "fetch_installed_models ep ty h = (Inr [], [])"
  using assms
  by (auto simp: fetch_lacks_key_def fetch_installed_models_def fetch_try_def fetch_url_def
        endswith_append extract_names_def List.map_filter_simps Let_def)

lemma strip_empty: "strip [] = []"
  by (simp add: strip_def)

lemma generate_lacks_field_result:
  assumes "generate_lacks_field a"
  shows "generate_text a = Inr (Response [])"
  using assms
  by (auto simp: generate_lacks_field_def generate_text_def get_or_empty_def strip_empty
        endswith_append Let_def split: sum.splits list.splits)

text \<open>
  C3, as the specification states it, fails: a timeout while fetching models and a refused
  connection while generating are failures of the taxonomy, and the worker emits
  \<open>models_fetched\<close> with an empty list and \<open>generation_complete\<close> with an error
  dictionary; the \<open>error\<close> signal is not emitted.
\<close>

theorem timeout_not_on_error_signal:
  "fetch_fails ''http://localhost:11434'' ''Ollama'' timeout_get
   \<and> run (FetchTask ''http://localhost:11434'' ''Ollama'' timeout_get)
       = [ModelsFetched [], Finished]
   \<and> generate_fails refused_generate
   \<and> run (GenerateTask refused_generate)
       = [GenerationComplete
            (Error (''API request failed connecting to http://localhost:11434/api/generate.''
                    @ [CHR 0x0A] @ ''Error: connection refused'')), Finished]"
  by (simp add: fetch_fails_def fetch_url_def timeout_get_def run_def
        fetch_installed_models_def fetch_try_def generate_fails_def refused_generate_def
        no_format_def refused_post_def generate_text_def)

text \<open>
  C3, amended. A task failure - no endpoint, no model, an unsupported API type, a request
  that raises (connection failure, timeout, HTTP error status, undecodable JSON, a reply
  on whose shape the extraction raises) or a chat reply without choices - is caught
  inside the task body and delivered through the task's own result signal: a failed
  FetchModels task shows one message through \<open>show_api_error\<close> and emits
  \<open>models_fetched\<close> with the empty list; a failed Generate task emits
  \<open>generation_complete\<close> with \<open>{"error": message}\<close>. A decoded reply that only lacks
  the expected field is not treated as a failure: FetchModels emits \<open>models_fetched\<close>
  with the empty list and shows no message, Generate emits \<open>generation_complete\<close> with
  \<open>{"response": ""}\<close>. Each is followed by \<open>finished\<close>, and neither task ever emits
  the \<open>error\<close> signal.
\<close>

theorem task_failure_delivery:
  "(fetch_fails ep ty h \<longrightarrow>
      run (FetchTask ep ty h) = [ModelsFetched [], Finished]
      \<and> length (snd (fetch_installed_models ep ty h)) = 1)
   \<and> (generate_fails a \<longrightarrow>
        (\<exists>msg. run (GenerateTask a) = [GenerationComplete (Error msg), Finished]))
   \<and> (fetch_lacks_key ep ty h \<longrightarrow>
        run (FetchTask ep ty h) = [ModelsFetched [], Finished]
        \<and> snd (fetch_installed_models ep ty h) = [])
   \<and> (generate_lacks_field a \<longrightarrow>
        run (GenerateTask a) = [GenerationComplete (Response []), Finished])
   \<and> ErrorSignal m \<notin> set (run (FetchTask ep ty h))
   \<and> ErrorSignal m \<notin> set (run (GenerateTask a))"
proof -
  have 1: "fetch_fails ep ty h \<longrightarrow>
      run (FetchTask ep ty h) = [ModelsFetched [], Finished]
      \<and> length (snd (fetch_installed_models ep ty h)) = 1"
    by (auto simp: run_def fetch_fails_message dest: fetch_fails_result)
  have 2: "generate_fails a \<longrightarrow>
        (\<exists>msg. run (GenerateTask a) = [GenerationComplete (Error msg), Finished])"
    by (auto simp: run_def dest: generate_fails_result)
  have 3: "fetch_lacks_key ep ty h \<longrightarrow>
        run (FetchTask ep ty h) = [ModelsFetched [], Finished]
        \<and> snd (fetch_installed_models ep ty h) = []"
    by (auto simp: run_def dest: fetch_lacks_key_result)
  have 4: "generate_lacks_field a \<longrightarrow>
        run (GenerateTask a) = [GenerationComplete (Response []), Finished]"
    by (auto simp: run_def dest: generate_lacks_field_result)
  have 5: "ErrorSignal m \<notin> set (run (FetchTask ep ty h))"
    by (auto simp: run_def split: sum.splits dest: fetch_Inl)
  have 6: "ErrorSignal m \<notin> set (run (GenerateTask a))"
    by (auto simp: run_def split: sum.splits dest: generate_Inl)
  from 1 2 3 4 5 6 show ?thesis by blast
qed

theorem task_failure_delivery_witness:
  "fetch_fails ''http://localhost:11434'' ''Ollama'' timeout_get
   \<and> run (FetchTask ''http://localhost:11434'' ''Ollama'' timeout_get) = [ModelsFetched [], Finished]
   \<and> length (snd (fetch_installed_models ''http://localhost:11434'' ''Ollama'' timeout_get)) = 1
   \<and> generate_fails refused_generate
   \<and> (\<exists>msg. run (GenerateTask refused_generate) = [GenerationComplete (Error msg), Finished])
   \<and> fetch_lacks_key ''http://localhost:11434'' ''OpenAI'' keyless_get
   \<and> run (FetchTask ''http://localhost:11434'' ''OpenAI'' keyless_get) = [ModelsFetched [], Finished]
   \<and> snd (fetch_installed_models ''http://localhost:11434'' ''OpenAI'' keyless_get) = []
   \<and> generate_lacks_field keyless_generate
   \<and> run (GenerateTask keyless_generate) = [GenerationComplete (Response []), Finished]"
proof -
  have f: "fetch_fails ''http://localhost:11434'' ''Ollama'' timeout_get"
    by (simp add: fetch_fails_def fetch_url_def timeout_get_def)
  have g: "generate_fails refused_generate"
    by (simp add: generate_fails_def refused_generate_def no_format_def refused_post_def)
  have k: "fetch_lacks_key ''http://localhost:11434'' ''OpenAI'' keyless_get"
    by (simp add: fetch_lacks_key_def fetch_url_def keyless_get_def)
  have l: "generate_lacks_field keyless_generate"
    by (simp add: generate_lacks_field_def keyless_generate_def refused_generate_def
          no_format_def keyless_post_def)
  from f g
    task_failure_delivery [of "''http://localhost:11434''" "''Ollama''" timeout_get refused_generate]
  have 1: "run (FetchTask ''http://localhost:11434'' ''Ollama'' timeout_get) = [ModelsFetched [], Finished]
     \<and> length (snd (fetch_installed_models ''http://localhost:11434'' ''Ollama'' timeout_get)) = 1
     \<and> (\<exists>msg. run (GenerateTask refused_generate) = [GenerationComplete (Error msg), Finished])"
    by blast
  from k l
    task_failure_delivery [of "''http://localhost:11434''" "''OpenAI''" keyless_get keyless_generate]
  have 2: "run (FetchTask ''http://localhost:11434'' ''OpenAI'' keyless_get) = [ModelsFetched [], Finished]
     \<and> snd (fetch_installed_models ''http://localhost:11434'' ''OpenAI'' keyless_get) = []
     \<and> run (GenerateTask keyless_generate) = [GenerationComplete (Response []), Finished]"
    by blast
  from f g k l 1 2 show ?thesis by blast
qed

section \<open>Properties of the window\<close>

lemmas ui_defs = show_error_message_def show_warning_message_def show_info_message_def
  confirm_action_def pe_mark_dirty_def pe_clear_dirty_flag_def pe_editor_setPlainText_def

lemmas view_defs = GENERATOR_VIEW_INDEX_def PROMPT_EDITOR_VIEW_INDEX_def
  SYSTEM_PROMPTS_VIEW_INDEX_def SETTINGS_VIEW_INDEX_def

lemma opened_window_eq:
  "opened_window =
     initial_window\<lparr>files := [a_txt \<mapsto> File ''old'' True True],
       save_target_file := Some a_txt, current_prompt_editor_file := Some a_txt,
       pe_editor_text := ''old'', pe_filename_label := ''a.txt'', pe_editor_enabled := True,
       pe_editor_read_only := False, pe_close_button_enabled := True\<rparr>"
  by (simp add: opened_window_def initial_window_def pe_open_file_def file_dialog_def
        load_file_into_pe_editor_def path_exists_def read_file_def a_txt_def basename_def ui_defs)

lemma edited_window_eq:
  "edited_window =
     opened_window\<lparr>pe_editor_text := ''edited'', prompt_editor_dirty := True,
       pe_save_button_enabled := True\<rparr>"
  by (simp add: edited_window_def opened_window_eq initial_window_def pe_user_edit_def ui_defs)

subsection \<open>Closing and loading\<close>

lemma close_no_file:
  "\<not> truthy (current_prompt_editor_file s) \<Longrightarrow> pe_close_file force s = s"
  by (simp add: pe_close_file_def)

lemma close_no_answer:
  "\<not> force \<Longrightarrow> prompt_editor_dirty s \<Longrightarrow> answers s = [] \<Longrightarrow>
   pe_close_file force s = s"
  by (simp add: pe_close_file_def ui_defs Let_def)

lemma close_declined:
  "\<not> force \<Longrightarrow> prompt_editor_dirty s \<Longrightarrow> answers s = False # later \<Longrightarrow>
   prompt_editor_dirty (pe_close_file force s)"
  by (simp add: pe_close_file_def ui_defs Let_def)

lemma pe_closed_close:
  "truthy (current_prompt_editor_file s) \<Longrightarrow> pe_closed (pe_close_file True s)"
  by (simp add: pe_close_file_def pe_closed_def ui_defs Let_def)

lemma pe_closed_after_confirm:
  "truthy (current_prompt_editor_file s) \<Longrightarrow> answers s = True # later \<Longrightarrow>
   pe_closed (pe_close_file force s)"
  by (simp add: pe_close_file_def pe_closed_def ui_defs Let_def)

lemma pe_closed_unasked:
  "truthy (current_prompt_editor_file s) \<Longrightarrow> force \<or> \<not> prompt_editor_dirty s \<Longrightarrow>
   pe_closed (pe_close_file force s)"
  by (auto simp: pe_close_file_def pe_closed_def ui_defs Let_def)

lemma load_ok:
  "\<not> load_fails p s \<Longrightarrow>
   load_file_into_pe_editor p s =
     s\<lparr>save_target_file := Some p, current_prompt_editor_file := Some p,
       pe_editor_text := the (read_file (files s) p), pe_filename_label := basename p,
       pe_editor_enabled := True, pe_editor_read_only := False,
       pe_close_button_enabled := True, prompt_editor_dirty := False,
       pe_save_button_enabled := False\<rparr>"
  by (auto simp: load_fails_def load_file_into_pe_editor_def ui_defs Let_def)

lemma load_fail:
  "load_fails p s \<Longrightarrow>
   load_file_into_pe_editor p s =
     pe_close_file True
       (show_error_message ''File Error'' (''Read fail:'' @ [CHR 0x0A] @ p) s)"
  by (auto simp: load_fails_def load_file_into_pe_editor_def)

lemma read_file_data:
  "read_file fs p = Some txt \<Longrightarrow> map_option data (fs p) = Some txt"
  by (auto simp: read_file_def split: if_splits option.splits)

lemma files_confirm: "files (snd (confirm_action t m s)) = files s"
  by (simp add: confirm_action_def split: list.splits)

lemma files_close: "files (pe_close_file force s) = files s"
  by (simp add: pe_close_file_def ui_defs Let_def split: list.splits)

lemma files_load: "files (load_file_into_pe_editor p s) = files s"
  by (cases "load_fails p s") (simp_all add: load_ok load_fail files_close show_error_message_def)

lemma files_file_dialog: "files (snd (file_dialog s)) = files s"
  by (simp add: file_dialog_def split: list.splits)

lemma target_close:
  "save_target_file s \<noteq> current_prompt_editor_file s \<Longrightarrow>
   save_target_file (pe_close_file True s) = save_target_file s"
  by (simp add: pe_close_file_def ui_defs Let_def)

lemma target_load:
  "save_target_file s = Some p \<Longrightarrow> current_prompt_editor_file s \<noteq> Some p \<Longrightarrow>
   save_target_file (load_file_into_pe_editor p s) = Some p"
proof (cases "load_fails p s")
  case True
  assume "save_target_file s = Some p" "current_prompt_editor_file s \<noteq> Some p"
  then show ?thesis using True
    by (simp add: load_fail) (subst target_close, auto simp: show_error_message_def)
next
  case False
  then show ?thesis by (simp add: load_ok)
qed

text \<open>
  C9, as the specification states it, fails in one part: no Declined outcome is returned.
  \<open>_pe_close_file\<close> returns \<open>None\<close> when the user declines, exactly as it does
  when the user accepts and the file is closed, and as it does with \<open>force\<close>.
\<close>

theorem close_returns_none:
  "prompt_editor_dirty (edited_window\<lparr>answers := [False]\<rparr>)
   \<and> pe_close_file_returns False (edited_window\<lparr>answers := [False]\<rparr>) = PyNone
   \<and> current_prompt_editor_file (pe_close_file False (edited_window\<lparr>answers := [False]\<rparr>))
       = Some a_txt
   \<and> pe_close_file_returns False (edited_window\<lparr>answers := [True]\<rparr>) = PyNone
   \<and> current_prompt_editor_file (pe_close_file False (edited_window\<lparr>answers := [True]\<rparr>))
       = None
   \<and> pe_close_file_returns True edited_window = PyNone"
  by (simp add: pe_close_file_returns_def pe_close_file_def edited_window_eq opened_window_eq
        initial_window_def ui_defs a_txt_def)

text \<open>
  C9, amended. Closing the Prompt Editor file without \<open>force\<close> while the session is
  dirty, the user declining, returns \<open>None\<close> (the method has no other result) and leaves
  the session open and unchanged: when a file is open the confirmation box is shown, its
  reply is used up, and no other attribute of the window changes (text, file, dirty flag,
  save target and the rest); when no file is open nothing changes at all.
\<close>

theorem pe_close_file_declined:
  assumes "prompt_editor_dirty s" and "answers s = False # later"
  shows "pe_close_file False s =
           (if truthy (current_prompt_editor_file s)
            then s\<lparr>answers := later,
                   dialogs := dialogs s @ [Question ''Unsaved'' ''Discard editor changes?'']\<rparr>
            else s)
         \<and> pe_close_file_returns False s = PyNone"
  using assms by (simp add: pe_close_file_def pe_close_file_returns_def confirm_action_def)

theorem pe_close_file_declined_witness:
  "prompt_editor_dirty (edited_window\<lparr>answers := [False]\<rparr>)
   \<and> answers (edited_window\<lparr>answers := [False]\<rparr>) = False # []
   \<and> pe_close_file False (edited_window\<lparr>answers := [False]\<rparr>)
       = edited_window\<lparr>answers := [],
                       dialogs := [Question ''Unsaved'' ''Discard editor changes?'']\<rparr>
   \<and> pe_editor_text (pe_close_file False (edited_window\<lparr>answers := [False]\<rparr>)) = ''edited''
   \<and> pe_close_file_returns False (edited_window\<lparr>answers := [False]\<rparr>) = PyNone"
proof -
  let ?s = "edited_window\<lparr>answers := [False]\<rparr>"
  have d: "prompt_editor_dirty ?s" by (simp add: edited_window_eq)
  have a: "answers ?s = False # []" by simp
  have t: "truthy (current_prompt_editor_file ?s)"
    by (simp add: edited_window_eq opened_window_eq a_txt_def)
  have dl: "dialogs ?s = []" by (simp add: edited_window_eq opened_window_eq initial_window_def)
  have tx: "pe_editor_text ?s = ''edited''" by (simp add: edited_window_eq)
  from pe_close_file_declined [OF d a] t dl tx d a show ?thesis by simp
qed

text \<open>
  C4, as the specification states it, fails: with \<open>a.txt\<close> open in the editor, loading
  a file that does not exist clears the editor's text, its file and the save target, and
  disables the editor.
\<close>

theorem failed_load_closes_editor:
  "read_file (files opened_window) b_txt = None
   \<and> pe_editor_text opened_window = ''old''
   \<and> current_prompt_editor_file opened_window = Some a_txt
   \<and> save_target_file opened_window = Some a_txt
   \<and> pe_editor_enabled opened_window
   \<and> pe_editor_text (load_file_into_pe_editor b_txt opened_window) = []
   \<and> current_prompt_editor_file (load_file_into_pe_editor b_txt opened_window) = None
   \<and> save_target_file (load_file_into_pe_editor b_txt opened_window) = None
   \<and> \<not> pe_editor_enabled (load_file_into_pe_editor b_txt opened_window)"
  by (simp add: opened_window_eq initial_window_def load_file_into_pe_editor_def
        path_exists_def read_file_def a_txt_def b_txt_def pe_close_file_def ui_defs)

text \<open>
  C4, amended. A failed load shows an error message and leaves the disk alone. When no
  file was open in the editor, nothing else changes. When a file was open, the editor is
  closed by force: its text and file are cleared, its dirty flag is false, it is disabled,
  and the save target is cleared when it was the editor's file.
\<close>

theorem failed_load_effect:
  assumes "load_fails filepath s"
  shows "dialogs (load_file_into_pe_editor filepath s)
           = dialogs s @ [Critical ''File Error'' (''Read fail:'' @ [CHR 0x0A] @ filepath)]
         \<and> files (load_file_into_pe_editor filepath s) = files s
         \<and> (\<not> truthy (current_prompt_editor_file s) \<longrightarrow>
              load_file_into_pe_editor filepath s
                = s\<lparr>dialogs := dialogs s
                       @ [Critical ''File Error'' (''Read fail:'' @ [CHR 0x0A] @ filepath)]\<rparr>)
         \<and> (truthy (current_prompt_editor_file s) \<longrightarrow>
              pe_editor_text (load_file_into_pe_editor filepath s) = []
              \<and> current_prompt_editor_file (load_file_into_pe_editor filepath s) = None
              \<and> \<not> prompt_editor_dirty (load_file_into_pe_editor filepath s)
              \<and> \<not> pe_editor_enabled (load_file_into_pe_editor filepath s)
              \<and> save_target_file (load_file_into_pe_editor filepath s)
                  = (if save_target_file s = current_prompt_editor_file s then None
                     else save_target_file s))"
  using assms
  by (auto simp: load_fails_def load_file_into_pe_editor_def pe_close_file_def ui_defs)

theorem failed_load_effect_witness:
  "load_fails b_txt opened_window
   \<and> current_prompt_editor_file (load_file_into_pe_editor b_txt opened_window) = None
   \<and> files (load_file_into_pe_editor b_txt opened_window) = files opened_window"
proof -
  have f: "load_fails b_txt opened_window" by code_simp
  have t: "truthy (current_prompt_editor_file opened_window)" by code_simp
  from failed_load_effect [OF f] t f show ?thesis by simp
qed

subsection \<open>Navigation\<close>

lemma dirty_confirm:
  "prompt_editor_dirty (snd (confirm_action t m s)) = prompt_editor_dirty s"
  by (simp add: confirm_action_def split: list.splits)

lemma fst_confirm:
  "fst (confirm_action t m s) = (case answers s of [] \<Rightarrow> False | c # later \<Rightarrow> c)"
  by (simp add: confirm_action_def split: list.splits)

lemma dirty_clear_dirty_flag:
  "prompt_editor_dirty (clear_dirty_flag s) = prompt_editor_dirty s"
  by (simp add: clear_dirty_flag_def)





















subsection \<open>Who clears the dirty flag\<close>

lemma accounted_cong:
  "prompt_editor_dirty s' = prompt_editor_dirty s \<Longrightarrow>
   current_prompt_editor_file s' = current_prompt_editor_file s \<Longrightarrow>
   pe_editor_text s' = pe_editor_text s \<Longrightarrow> pe_editor_enabled s' = pe_editor_enabled s \<Longrightarrow>
   files s' = files s \<Longrightarrow> accounted s' = accounted s"
  by (simp add: accounted_def pe_closed_def pe_on_disk_def split: option.splits)

lemma accounted_confirm: "accounted (snd (confirm_action t m s)) = accounted s"
  by (rule accounted_cong) (simp_all add: confirm_action_def split: list.splits)

lemma accounted_error: "accounted (show_error_message t m s) = accounted s"
  by (rule accounted_cong) (simp_all add: show_error_message_def)

lemma accounted_warning: "accounted (show_warning_message t m s) = accounted s"
  by (rule accounted_cong) (simp_all add: show_warning_message_def)

lemma accounted_dirty: "prompt_editor_dirty s \<Longrightarrow> accounted s"
  by (simp add: accounted_def)

lemma accounted_target: "accounted (s\<lparr>save_target_file := x\<rparr>) = accounted s"
  by (rule accounted_cong) simp_all

lemma accounted_label: "accounted (s\<lparr>pe_filename_label := x\<rparr>) = accounted s"
  by (rule accounted_cong) simp_all

lemma accounted_clear_dirty_flag: "accounted (clear_dirty_flag s) = accounted s"
  by (rule accounted_cong) (simp_all add: clear_dirty_flag_def)

lemma accounted_file_dialog: "accounted (snd (file_dialog s)) = accounted s"
  by (rule accounted_cong) (simp_all add: file_dialog_def split: list.splits)

lemma accounted_close: "accounted s \<Longrightarrow> accounted (pe_close_file force s)"
proof -
  assume a: "accounted s"
  show ?thesis
  proof (cases "truthy (current_prompt_editor_file s)")
    case False
    then show ?thesis using a by (simp add: close_no_file)
  next
    case t: True
    show ?thesis
    proof (cases "force \<or> \<not> prompt_editor_dirty s")
      case True
      then show ?thesis using pe_closed_unasked [OF t] by (simp add: accounted_def)
    next
      case False
      then have nf: "\<not> force" and d: "prompt_editor_dirty s" by simp_all
      show ?thesis
      proof (cases "answers s")
        case Nil
        then show ?thesis using a close_no_answer [OF nf d] by simp
      next
        case (Cons c later)
        show ?thesis
        proof (cases c)
          case True
          then show ?thesis using pe_closed_after_confirm [OF t] Cons
            by (simp add: accounted_def)
        next
          case False
          then show ?thesis using close_declined [OF nf d] Cons by (simp add: accounted_def)
        qed
      qed
    qed
  qed
qed

lemma accounted_load: "accounted s \<Longrightarrow> accounted (load_file_into_pe_editor p s)"
proof (cases "load_fails p s")
  case True
  assume "accounted s"
  then show ?thesis using True by (simp add: load_fail accounted_close accounted_error)
next
  case False
  then obtain body where "read_file (files s) p = Some body"
    by (auto simp: load_fails_def)
  then show ?thesis using False
    by (simp add: load_ok accounted_def pe_on_disk_def read_file_data)
qed

lemma load_accounts:
  "truthy (current_prompt_editor_file s) \<Longrightarrow> accounted (load_file_into_pe_editor p s)"
proof (cases "load_fails p s")
  case True
  assume "truthy (current_prompt_editor_file s)"
  then have "pe_closed (pe_close_file True
               (show_error_message ''File Error'' (''Read fail:'' @ [CHR 0x0A] @ p) s))"
    by (intro pe_closed_close) (simp add: show_error_message_def)
  then show ?thesis using True by (simp add: load_fail accounted_def)
next
  case False
  then obtain body where "read_file (files s) p = Some body"
    by (auto simp: load_fails_def)
  then show ?thesis using False
    by (simp add: load_ok accounted_def pe_on_disk_def read_file_data)
qed

lemma accounted_save: "accounted s \<Longrightarrow> accounted (pe_save_file s)"
proof (cases "current_prompt_editor_file s")
  case None
  assume "accounted s"
  then show ?thesis using None by (simp add: pe_save_file_def accounted_warning)
next
  case (Some p)
  assume a: "accounted s"
  show ?thesis
  proof (cases "p = [] \<or> \<not> prompt_editor_dirty s")
    case True
    then show ?thesis using a Some by (auto simp: pe_save_file_def accounted_warning)
  next
    case False
    show ?thesis
    proof (cases "write_file (files s) p (pe_editor_text s)")
      case None
      then show ?thesis using a Some False by (simp add: pe_save_file_def accounted_error)
    next
      case (Some written)
      then have "map_option data (written p) = Some (pe_editor_text s)"
        by (auto simp: write_file_def split: if_splits option.splits)
      then show ?thesis using Some \<open>current_prompt_editor_file s = Some p\<close> False
        by (simp add: pe_save_file_def accounted_def pe_on_disk_def pe_clear_dirty_flag_def)
    qed
  qed
qed

lemma dirty_edit: "prompt_editor_dirty s \<Longrightarrow> prompt_editor_dirty (pe_user_edit txt s)"
  by (simp add: pe_user_edit_def ui_defs)

lemma accounted_open: "accounted s \<Longrightarrow> accounted (pe_open_file s)"
proof -
  assume a: "accounted s"
  obtain fp s1 where fd: "file_dialog s = (fp, s1)" by (cases "file_dialog s")
  have a1: "accounted s1" using a fd accounted_file_dialog [of s] by simp
  obtain c s2 where ca: "confirm_action ''Unsaved'' ''Discard editor changes?'' s1 = (c, s2)"
    by (cases "confirm_action ''Unsaved'' ''Discard editor changes?'' s1")
  have a2: "accounted s2"
    using accounted_confirm [of "''Unsaved''" "''Discard editor changes?''" s1] ca a1 by simp
  show ?thesis using fd ca a1 a2 by (simp add: pe_open_file_def accounted_load)
qed

lemma accounted_ask: "accounted s \<Longrightarrow> accounted (snd (ask_save_target_file s))"
  by (simp add: ask_save_target_file_def Let_def case_prod_beta accounted_load
        accounted_confirm accounted_file_dialog accounted_target accounted_label
        split: option.splits)

lemma accounted_append: "accounted s \<Longrightarrow> accounted (append_generated t s)"
proof (cases "save_target_file s")
  case None
  assume "accounted s"
  then show ?thesis using None by (simp add: append_generated_def accounted_error)
next
  case (Some target)
  assume a: "accounted s"
  let ?txt = "(if path_exists (files s) target \<and> getsize (files s) target > 0
               then separator else []) @ t"
  show ?thesis
  proof (cases "append_file (files s) target ?txt")
    case None
    then show ?thesis using a Some by (simp add: append_generated_def accounted_error)
  next
    case written: (Some written)
    then have ne: "target \<noteq> []" and other: "\<And>q. q \<noteq> target \<Longrightarrow> written q = files s q"
      by (auto simp: append_file_def split: if_splits option.splits)
    let ?s1 = "s\<lparr>files := written\<rparr>"
    show ?thesis
    proof (cases "current_prompt_editor_file s = Some target")
      case False
      have "accounted ?s1" using a False other
        by (auto simp: accounted_def pe_closed_def pe_on_disk_def split: option.splits)
      then show ?thesis using Some written False by (simp add: append_generated_def)
    next
      case True
      then have tr: "truthy (current_prompt_editor_file ?s1)" using ne by simp
      show ?thesis
      proof (cases "prompt_editor_dirty s")
        case False
        then show ?thesis using Some written True load_accounts [OF tr]
          by (simp add: append_generated_def)
      next
        case d: True
        let ?c = "confirm_action ''File Updated''
                    ''File updated externally. Discard editor changes to see update?'' ?s1"
        have cur: "current_prompt_editor_file (snd ?c) = Some target" using True
          by (simp add: confirm_action_def split: list.splits)
        have dd: "prompt_editor_dirty (snd ?c)" using d
          by (simp add: confirm_action_def split: list.splits)
        have "accounted (load_file_into_pe_editor target (snd ?c))"
          using cur ne by (intro load_accounts) simp
        moreover have "accounted ((snd ?c)\<lparr>pe_filename_label :=
                          basename target @ ''* (External change)''\<rparr>)"
          using dd by (simp add: accounted_def)
        ultimately show ?thesis using Some written True d
          by (simp add: append_generated_def case_prod_beta Let_def)
      qed
    qed
  qed
qed

lemma accounted_save_generated: "accounted s \<Longrightarrow> accounted (save_generated_prompt s)"
proof -
  assume a: "accounted s"
  obtain r s1 where ask: "ask_save_target_file s = (r, s1)"
    by (cases "ask_save_target_file s")
  have a1: "accounted s1" using accounted_ask [OF a] ask by simp
  show ?thesis using a a1 ask
    by (auto simp: save_generated_prompt_def Let_def accounted_warning accounted_append
          split: option.splits bool.splits)
qed

lemma dirty_setPlainText:
  "prompt_editor_dirty s \<Longrightarrow> prompt_editor_dirty (pe_editor_setPlainText x s)"
  by (simp add: ui_defs)

lemma accounted_sync: "prompt_editor_dirty s \<Longrightarrow> accounted (sync_prompt_editor s)"
  by (simp add: sync_prompt_editor_def accounted_load accounted_close Let_def
        dirty_setPlainText accounted_def [of s]) (simp add: accounted_def dirty_setPlainText)

lemma accounted_nav:
  assumes "prompt_editor_dirty s" and "\<not> authorised_nav (NavClick row) s"
  shows "accounted (nav_click row s)"
  using assms
  by (simp add: nav_click_def on_nav_changed_def Let_def case_prod_beta authorised_nav_def
        fst_confirm dirty_confirm dirty_clear_dirty_flag accounted_sync accounted_dirty
        view_defs)

lemma accounted_handle:
  assumes "prompt_editor_dirty s"
  shows "accounted (handle e s) \<or> authorised_nav e s"
proof (cases e)
  case (NavClick row)
  then show ?thesis using accounted_nav [OF assms] by auto
next
  case (PeEdit x)
  then show ?thesis using dirty_edit [OF assms] by (simp add: accounted_dirty)
next
  case PeOpen
  then show ?thesis using assms by (simp add: accounted_open accounted_dirty)
next
  case PeSave
  then show ?thesis using assms by (simp add: accounted_save accounted_dirty)
next
  case PeClose
  then show ?thesis using assms by (simp add: accounted_close accounted_dirty)
next
  case SaveGenerated
  then show ?thesis using assms by (simp add: accounted_save_generated accounted_dirty)
qed

text \<open>
  C2, as the specification states it, fails: leaving the dirty Prompt Editor view with the
  user's consent clears the dirty flag, although the session is neither closed nor
  reloaded nor saved (the text stays \<open>edited\<close>, the file stays open and the disk
  still holds \<open>old\<close>).
\<close>

theorem nav_clears_dirty:
  "prompt_editor_dirty (edited_window\<lparr>current_index := PROMPT_EDITOR_VIEW_INDEX, answers := [True]\<rparr>)
   \<and> \<not> prompt_editor_dirty (nav_click GENERATOR_VIEW_INDEX
          (edited_window\<lparr>current_index := PROMPT_EDITOR_VIEW_INDEX, answers := [True]\<rparr>))
   \<and> pe_editor_text (nav_click GENERATOR_VIEW_INDEX
          (edited_window\<lparr>current_index := PROMPT_EDITOR_VIEW_INDEX, answers := [True]\<rparr>)) = ''edited''
   \<and> current_prompt_editor_file (nav_click GENERATOR_VIEW_INDEX
          (edited_window\<lparr>current_index := PROMPT_EDITOR_VIEW_INDEX, answers := [True]\<rparr>)) = Some a_txt
   \<and> files (nav_click GENERATOR_VIEW_INDEX
          (edited_window\<lparr>current_index := PROMPT_EDITOR_VIEW_INDEX, answers := [True]\<rparr>)) a_txt
       = Some (File ''old'' True True)"
  by (simp add: edited_window_eq opened_window_eq initial_window_def nav_click_def
        on_nav_changed_def view_defs confirm_action_def pe_clear_dirty_flag_def)

text \<open>
  C2, amended. When a user action clears the dirty flag of the Prompt Editor session, then
  afterwards the session is closed, or its text is that of its file on disk (as after a
  load or a save), or the action was a navigation click at the Prompt Editor view that
  the user authorised. Such a click to another view clears the dirty flag and leaves
  the text, the file and the save target as they were. An edit never clears the flag.
\<close>

theorem dirty_cleared_only_by:
  "(prompt_editor_dirty s \<and> \<not> prompt_editor_dirty (handle e s) \<longrightarrow>
      pe_closed (handle e s) \<or> pe_on_disk (handle e s) \<or> authorised_nav e s)
   \<and> (current_index s = PROMPT_EDITOR_VIEW_INDEX \<and> prompt_editor_dirty s
        \<and> answers s = True # later \<and> row \<noteq> PROMPT_EDITOR_VIEW_INDEX \<and> row < 4 \<longrightarrow>
        handle (NavClick row) s =
          s\<lparr>nav_row := row, current_index := row, answers := later,
             dialogs := dialogs s @ [Question ''Unsaved Changes''
                          ''Discard unsaved changes to the saved prompts file?''],
             prompt_editor_dirty := False, pe_save_button_enabled := False\<rparr>)
   \<and> (prompt_editor_dirty s \<longrightarrow> prompt_editor_dirty (handle (PeEdit typed) s))"
proof -
  have 1: "prompt_editor_dirty s \<and> \<not> prompt_editor_dirty (handle e s) \<longrightarrow>
      pe_closed (handle e s) \<or> pe_on_disk (handle e s) \<or> authorised_nav e s"
    using accounted_handle [of s e] by (auto simp: accounted_def)
  have 2: "current_index s = PROMPT_EDITOR_VIEW_INDEX \<and> prompt_editor_dirty s
        \<and> answers s = True # later \<and> row \<noteq> PROMPT_EDITOR_VIEW_INDEX \<and> row < 4 \<longrightarrow>
        handle (NavClick row) s =
          s\<lparr>nav_row := row, current_index := row, answers := later,
             dialogs := dialogs s @ [Question ''Unsaved Changes''
                          ''Discard unsaved changes to the saved prompts file?''],
             prompt_editor_dirty := False, pe_save_button_enabled := False\<rparr>"
    by (simp add: nav_click_def on_nav_changed_def view_defs confirm_action_def
          pe_clear_dirty_flag_def)
  have 3: "prompt_editor_dirty s \<longrightarrow> prompt_editor_dirty (handle (PeEdit typed) s)"
    by (simp add: dirty_edit)
  from 1 2 3 show ?thesis by blast
qed

theorem dirty_cleared_only_by_witness:
  "prompt_editor_dirty (edited_window\<lparr>answers := [True]\<rparr>)
   \<and> \<not> prompt_editor_dirty (handle PeClose (edited_window\<lparr>answers := [True]\<rparr>))
   \<and> pe_closed (handle PeClose (edited_window\<lparr>answers := [True]\<rparr>))
   \<and> \<not> prompt_editor_dirty
         (handle (NavClick GENERATOR_VIEW_INDEX)
            (edited_window\<lparr>current_index := PROMPT_EDITOR_VIEW_INDEX, answers := [True]\<rparr>))
   \<and> prompt_editor_dirty (handle (PeEdit ''old'') (edited_window\<lparr>answers := [True]\<rparr>))
   \<and> pe_editor_text (handle (PeEdit ''old'') (edited_window\<lparr>answers := [True]\<rparr>)) = ''old''"
proof -
  let ?s = "edited_window\<lparr>answers := [True]\<rparr>"
  let ?n = "edited_window\<lparr>current_index := PROMPT_EDITOR_VIEW_INDEX, answers := [True]\<rparr>"
  have d: "prompt_editor_dirty ?s" by code_simp
  have c: "\<not> prompt_editor_dirty (handle PeClose ?s)" by code_simp
  have a: "\<not> authorised_nav PeClose ?s" by (simp add: authorised_nav_def)
  have o: "\<not> pe_on_disk (handle PeClose ?s)" by code_simp
  have 1: "pe_closed (handle PeClose ?s)"
    using dirty_cleared_only_by [of ?s PeClose] d c a o by blast
  have n: "current_index ?n = PROMPT_EDITOR_VIEW_INDEX \<and> prompt_editor_dirty ?n
           \<and> answers ?n = True # [] \<and> GENERATOR_VIEW_INDEX \<noteq> PROMPT_EDITOR_VIEW_INDEX
           \<and> GENERATOR_VIEW_INDEX < 4"
    by (simp add: edited_window_eq view_defs)
  have 2: "\<not> prompt_editor_dirty (handle (NavClick GENERATOR_VIEW_INDEX) ?n)"
    using dirty_cleared_only_by [of ?n PeClose "[]" GENERATOR_VIEW_INDEX] n by simp
  have 3: "prompt_editor_dirty (handle (PeEdit ''old'') ?s)"
    using dirty_cleared_only_by [of ?s PeClose "[]" 0 "''old''"] d by blast
  have 4: "pe_editor_text (handle (PeEdit ''old'') ?s) = ''old''" by code_simp
  from d c 1 2 3 4 show ?thesis by blast
qed

subsection \<open>Appending generated text\<close>

lemma files_append_generated:
  assumes "save_target_file s = Some p" and "can_append (files s) p"
  shows "map_option data (files (append_generated t s) p) = Some (appended (files s) p t)"
proof -
  let ?txt = "(if path_exists (files s) p \<and> getsize (files s) p > 0 then separator else []) @ t"
  obtain written where w: "append_file (files s) p ?txt = Some written"
    using assms(2) by (auto simp: can_append_def append_file_def split: option.splits)
  have d: "map_option data (written p) = Some (appended (files s) p t)"
    using w assms(2)
    by (auto simp: append_file_def appended_def path_exists_def getsize_def can_append_def
          split: option.splits if_splits)
  have "files (append_generated t s) = written"
    using assms(1) w
    by (simp add: append_generated_def Let_def case_prod_beta files_load files_confirm)
  with d show ?thesis by simp
qed

lemma ask_chosen:
  assumes "picks s = p # later" and "p \<noteq> []"
    and "current_prompt_editor_file s \<noteq> Some p"
    and "prompt_editor_dirty s \<longrightarrow> current_prompt_editor_file s \<noteq> None"
  shows "fst (ask_save_target_file s) = Some True
         \<and> save_target_file (snd (ask_save_target_file s)) = Some p
         \<and> files (snd (ask_save_target_file s)) = files s"
proof -
  let ?s1 = "s\<lparr>picks := later, save_target_file := Some p\<rparr>"
  have fd: "file_dialog s = (p, s\<lparr>picks := later\<rparr>)"
    using assms(1) by (simp add: file_dialog_def)
  show ?thesis
  proof (cases "prompt_editor_dirty s")
    case False
    then have "ask_save_target_file s = (Some True, load_file_into_pe_editor p ?s1)"
      using fd assms(2) by (simp add: ask_save_target_file_def)
    moreover have "save_target_file (load_file_into_pe_editor p ?s1) = Some p"
      using assms(3) by (intro target_load) simp_all
    ultimately show ?thesis by (simp add: files_load)
  next
    case True
    then obtain q where q: "current_prompt_editor_file s = Some q" using assms(4) by auto
    let ?m = "''Set new save file ('' @ basename p
                @ ''). Discard unsaved changes in Editor for ''
                @ (if truthy (current_prompt_editor_file ?s1)
                   then basename (the (current_prompt_editor_file ?s1)) else ''prev file'')
                @ ''?''"
    let ?c = "confirm_action ''Unsaved Changes'' ?m ?s1"
    have c1: "save_target_file (snd ?c) = Some p"
      and c2: "current_prompt_editor_file (snd ?c) = Some q"
      and c3: "files (snd ?c) = files s"
      using q by (simp_all add: confirm_action_def split: list.splits)
    have l: "save_target_file (load_file_into_pe_editor p (snd ?c)) = Some p"
      using c1 c2 q assms(3) by (intro target_load) simp_all
    have "ask_save_target_file s =
            (if fst ?c then (Some True, load_file_into_pe_editor p (snd ?c))
             else (Some True, (snd ?c)\<lparr>pe_filename_label := basename q @ ''* (Out of sync)''\<rparr>))"
      using fd assms(2) True c2
      by (simp add: ask_save_target_file_def Let_def case_prod_beta)
    then show ?thesis using l c1 c3 by (simp add: files_load)
  qed
qed

lemma hello_facts:
  "valid_generated (strip (response_display hello_window))"
  "can_append (files hello_window) a_txt"
  "save_target_file hello_window = None"
  "picks hello_window = a_txt # []"
  "current_prompt_editor_file hello_window \<noteq> Some a_txt"
  "\<not> prompt_editor_dirty hello_window"
  "strip (response_display hello_window) = ''hello''"
  "files hello_window a_txt = None"
  by code_simp+

lemma world_facts:
  "valid_generated (strip (response_display world_window))"
  "can_append (files world_window) a_txt"
  "save_target_file world_window = Some a_txt"
  "strip (response_display world_window) = ''world''"
  "files world_window a_txt = Some (File ''hello'' True True)"
  by code_simp+

lemma opened_facts:
  "save_target_file opened_window = Some a_txt"
  "current_prompt_editor_file opened_window = Some a_txt"
  "\<not> prompt_editor_dirty opened_window"
  "can_append (files opened_window) a_txt"
  "files opened_window a_txt = Some (File ''old'' True True)"
  "pe_editor_text opened_window = ''old''"
  by code_simp+

text \<open>
  C6. With a valid generated text and a target that can be appended to (set already, or
  chosen in the save dialog while the editor does not hold that very file), the target
  holds afterwards: the text alone when the file did not exist or was empty, and otherwise
  its old text, the separator (two newlines, twenty \<open>=\<close>, two newlines) and the text.
  The witness runs the scenario: \<open>hello\<close> into the newly chosen \<open>a.txt\<close>, then
  \<open>world\<close>.
\<close>

theorem append_generated_text:
  assumes "valid_generated (strip (response_display s))"
    and "can_append (files s) p"
    and "save_target_file s = Some p
         \<or> (save_target_file s = None \<and> picks s = p # later
             \<and> current_prompt_editor_file s \<noteq> Some p
             \<and> (prompt_editor_dirty s \<longrightarrow> current_prompt_editor_file s \<noteq> None))"
  shows "map_option data (files (save_generated_prompt s) p)
           = Some (appended (files s) p (strip (response_display s)))"
proof -
  let ?t = "strip (response_display s)"
  from assms(3) show ?thesis
  proof
    assume t: "save_target_file s = Some p"
    then have "save_generated_prompt s = append_generated ?t s"
      using assms(1) by (simp add: save_generated_prompt_def valid_generated_def Let_def)
    then show ?thesis using files_append_generated [OF t assms(2)] by simp
  next
    assume c: "save_target_file s = None \<and> picks s = p # later
             \<and> current_prompt_editor_file s \<noteq> Some p
             \<and> (prompt_editor_dirty s \<longrightarrow> current_prompt_editor_file s \<noteq> None)"
    have ne: "p \<noteq> []" using assms(2) by (simp add: can_append_def)
    obtain r s1 where ask: "ask_save_target_file s = (r, s1)"
      by (cases "ask_save_target_file s")
    have r: "r = Some True" and t1: "save_target_file s1 = Some p" and f1: "files s1 = files s"
      using ask_chosen [of s p later] c ne ask by simp_all
    have "save_generated_prompt s = append_generated ?t s1"
      using assms(1) c ask r
      by (simp add: save_generated_prompt_def valid_generated_def Let_def)
    moreover have "can_append (files s1) p" using assms(2) f1 by simp
    ultimately show ?thesis using files_append_generated [OF t1, of ?t] f1 by simp
  qed
qed

theorem append_generated_text_witness:
  "files hello_window a_txt = None
   \<and> map_option data (files (save_generated_prompt hello_window) a_txt) = Some ''hello''
   \<and> map_option data (files (save_generated_prompt world_window) a_txt)
       = Some (''hello'' @ [CHR 0x0A, CHR 0x0A] @ ''===================='' @ [CHR 0x0A, CHR 0x0A]
               @ ''world'')"
proof -
  have h: "save_target_file hello_window = Some a_txt
         \<or> (save_target_file hello_window = None \<and> picks hello_window = a_txt # []
             \<and> current_prompt_editor_file hello_window \<noteq> Some a_txt
             \<and> (prompt_editor_dirty hello_window \<longrightarrow> current_prompt_editor_file hello_window \<noteq> None))"
    using hello_facts by simp
  have w: "save_target_file world_window = Some a_txt
         \<or> (save_target_file world_window = None \<and> picks world_window = a_txt # []
             \<and> current_prompt_editor_file world_window \<noteq> Some a_txt
             \<and> (prompt_editor_dirty world_window \<longrightarrow> current_prompt_editor_file world_window \<noteq> None))"
    using world_facts by simp
  have 1: "map_option data (files (save_generated_prompt hello_window) a_txt) = Some ''hello''"
    using append_generated_text [OF hello_facts(1) hello_facts(2) h] hello_facts(7,8)
    by (simp add: appended_def)
  have 2: "map_option data (files (save_generated_prompt world_window) a_txt)
       = Some (''hello'' @ [CHR 0x0A, CHR 0x0A] @ ''===================='' @ [CHR 0x0A, CHR 0x0A]
               @ ''world'')"
    using append_generated_text [OF world_facts(1) world_facts(2) w] world_facts(4,5)
    by (simp add: appended_def separator_def numeral_eq_Suc)
  from 1 2 hello_facts(8) show ?thesis by blast
qed

text \<open>
  C7. When generated text is appended to a target that is the file open in the Prompt
  Editor, the session is clean and the file can be appended to and read, the editor is
  reloaded: its text is the new text of the file, ending in the appended text, its dirty
  flag is false and its file is unchanged.
\<close>

theorem append_reloads_clean_editor:
  assumes "valid_generated (strip (response_display s))"
    and "save_target_file s = Some p" and "current_prompt_editor_file s = Some p"
    and "\<not> prompt_editor_dirty s"
    and "can_append (files s) p"
    and "case files s p of None \<Rightarrow> True | Some f \<Rightarrow> readable f"
  shows "pe_editor_text (save_generated_prompt s)
           = appended (files s) p (strip (response_display s))
         \<and> map_option data (files (save_generated_prompt s) p)
           = Some (pe_editor_text (save_generated_prompt s))
         \<and> \<not> prompt_editor_dirty (save_generated_prompt s)
         \<and> current_prompt_editor_file (save_generated_prompt s) = Some p"
proof -
  let ?t = "strip (response_display s)"
  let ?txt = "(if path_exists (files s) p \<and> getsize (files s) p > 0 then separator else []) @ ?t"
  have sg: "save_generated_prompt s = append_generated ?t s"
    using assms(1,2) by (simp add: save_generated_prompt_def valid_generated_def Let_def)
  obtain written where w: "append_file (files s) p ?txt = Some written"
    using assms(5) by (auto simp: can_append_def append_file_def split: option.splits)
  have rd: "read_file written p = Some (appended (files s) p ?t)"
    using w assms(5,6)
    by (auto simp: append_file_def appended_def path_exists_def getsize_def can_append_def
          read_file_def split: option.splits if_splits)
  let ?s1 = "s\<lparr>files := written\<rparr>"
  have ok: "\<not> load_fails p ?s1"
    using rd assms(5) by (auto simp: load_fails_def path_exists_def can_append_def read_file_def
          split: option.splits if_splits)
  have "append_generated ?t s = load_file_into_pe_editor p ?s1"
    using assms(2,3,4) w by (simp add: append_generated_def Let_def)
  then show ?thesis using sg load_ok [OF ok] rd by (simp add: read_file_data)
qed

theorem append_reloads_clean_editor_witness:
  "pe_editor_text (opened_window\<lparr>response_display := ''hello''\<rparr>) = ''old''
   \<and> pe_editor_text (save_generated_prompt (opened_window\<lparr>response_display := ''hello''\<rparr>))
       = ''old'' @ separator @ ''hello''
   \<and> \<not> prompt_editor_dirty (save_generated_prompt (opened_window\<lparr>response_display := ''hello''\<rparr>))"
proof -
  let ?s = "opened_window\<lparr>response_display := ''hello''\<rparr>"
  have v: "valid_generated (strip (response_display ?s))" by code_simp
  have st: "strip (response_display ?s) = ''hello''" by code_simp
  have r: "case files ?s a_txt of None \<Rightarrow> True | Some f \<Rightarrow> readable f"
    using opened_facts(5) by simp
  show ?thesis
    using append_reloads_clean_editor [of ?s a_txt, OF v _ _ _ _ r] opened_facts st
    by (simp add: appended_def)
qed

section \<open>Properties of the presets\<close>

text \<open>
  C8. Deleting the default preset is rejected before anything changes:
  \<open>delete_prompt_preset\<close> returns \<open>False\<close> and only shows a warning, and
  \<open>_delete_selected_preset\<close> with the default selected only shows a warning, without
  calling \<open>delete_prompt_preset\<close>: the directory, the active preset, the list and the
  user's pending replies are as before.
\<close>

theorem delete_default_rejected:
  "delete_prompt_preset DEFAULT_PROMPT_NAME s =
     (False, s\<lparr>dialogs := dialogs s
                 @ [TkWarning ''Delete Prevented''
                      ''Cannot delete the default prompt or an empty selection.'']\<rparr>)
   \<and> (current_item s = Some DEFAULT_PROMPT_NAME \<longrightarrow>
        delete_selected_preset s =
          s\<lparr>dialogs := dialogs s
               @ [Warning ''Delete Prevented''
                    (''Cannot delete default '' @ DEFAULT_PROMPT_NAME @ ''.'')]\<rparr>)"
  by (simp add: delete_prompt_preset_def delete_selected_preset_def show_warning_message_def)

theorem delete_default_rejected_witness:
  "current_item preset_window = Some DEFAULT_PROMPT_NAME
   \<and> prompt_dir (delete_selected_preset preset_window) = prompt_dir preset_window
   \<and> active_system_prompt_file (delete_selected_preset preset_window) = ''default.txt''
   \<and> answers (delete_selected_preset preset_window) = [True]"
proof -
  have c: "current_item preset_window = Some DEFAULT_PROMPT_NAME" by code_simp
  from delete_default_rejected [of preset_window] c show ?thesis
    by (simp add: preset_window_def initial_window_def)
qed

end
